theory Spec2Isabelle
  imports Complex_Main "HOL-Library.Log_Nat"
begin

section \<open>Python values that reach the two scripts\<close>

text \<open>
  The persistent server (\<^verbatim>\<open>kokoro_python_server.py\<close>) obtains its requests from
  \<^verbatim>\<open>json.loads\<close>, so the values it handles are the Python images of JSON values:
  \<^verbatim>\<open>None\<close>, booleans, integers, floats, strings, lists and dictionaries with string keys.
  A float is represented by the number it denotes (or one of the three non-finite constants
  that \<^verbatim>\<open>json.loads\<close> accepts).
  A dictionary is the list of its items in insertion order, looked up with \<open>map_of\<close>.
\<close>

datatype pyfloat = Finite real | PosInf | NegInf | NaN

datatype pyval =
    PNone
  | PBool bool
  | PInt int
  | PFloat pyfloat
  | PStr string
  | PList "pyval list"
  | PDict "(string \<times> pyval) list"

text \<open>Truth value of an object, as \<^verbatim>\<open>all([...])\<close> and \<^verbatim>\<open>not x\<close> test it.\<close>

fun truthy :: "pyval \<Rightarrow> bool" where
  "truthy PNone = False"
| "truthy (PBool b) = b"
| "truthy (PInt i) = (i \<noteq> 0)"
| "truthy (PFloat (Finite r)) = (r \<noteq> 0)"
| "truthy (PFloat _) = True"
| "truthy (PStr s) = (s \<noteq> [])"
| "truthy (PList xs) = (xs \<noteq> [])"
| "truthy (PDict kvs) = (kvs \<noteq> [])"

text \<open>
  Keys of the dictionary \<^verbatim>\<open>pipelines\<close>. Python identifies keys that are equal and hash
  alike: \<^verbatim>\<open>True\<close>, \<^verbatim>\<open>1\<close> and \<^verbatim>\<open>1.0\<close> are one key. Lists and dictionaries are
  unhashable: using one as a key raises \<^verbatim>\<open>TypeError\<close>.
\<close>

datatype pykey = KNone | KNum real | KPosInf | KNegInf | KNaN | KStr string

fun dict_key :: "pyval \<Rightarrow> pykey option" where
  "dict_key PNone = Some KNone"
| "dict_key (PBool b) = Some (KNum (if b then 1 else 0))"
| "dict_key (PInt i) = Some (KNum (of_int i))"
| "dict_key (PFloat (Finite r)) = Some (KNum r)"
| "dict_key (PFloat PosInf) = Some KPosInf"
| "dict_key (PFloat NegInf) = Some KNegInf"
| "dict_key (PFloat NaN) = Some KNaN"
| "dict_key (PStr s) = Some (KStr s)"
| "dict_key (PList _) = None"
| "dict_key (PDict _) = None"

fun type_name :: "pyval \<Rightarrow> string" where
  "type_name PNone = ''NoneType''"
| "type_name (PBool _) = ''bool''"
| "type_name (PInt _) = ''int''"
| "type_name (PFloat _) = ''float''"
| "type_name (PStr _) = ''str''"
| "type_name (PList _) = ''list''"
| "type_name (PDict _) = ''dict''"

definition squote :: "string \<Rightarrow> string" where
  "squote s = CHR 0x27 # s @ [CHR 0x27]"

text \<open>The messages \<^verbatim>\<open>str(e)\<close> of the two built-in errors the server can provoke.\<close>

definition unhashable_msg :: "pyval \<Rightarrow> string" where
  "unhashable_msg v = ''unhashable type: '' @ squote (type_name v)"

definition no_attribute_msg :: "pyval \<Rightarrow> string \<Rightarrow> string" where
  "no_attribute_msg v a = squote (type_name v) @ '' object has no attribute '' @ squote a"

text \<open>\<^verbatim>\<open>d.get(k)\<close> on a dictionary: the value, or \<^verbatim>\<open>None\<close> when the key is absent.\<close>

definition dict_get :: "(string \<times> pyval) list \<Rightarrow> string \<Rightarrow> pyval" where
  "dict_get kvs k = (case map_of kvs k of None \<Rightarrow> PNone | Some v \<Rightarrow> v)"

text \<open>\<^verbatim>\<open>str.strip()\<close> on the characters below 256.\<close>

definition isspace :: "char \<Rightarrow> bool" where
  "isspace c = (let n = (of_char c :: nat) in
     (9 \<le> n \<and> n \<le> 13) \<or> (28 \<le> n \<and> n \<le> 32) \<or> n = 133 \<or> n = 160)"

definition strip :: "string \<Rightarrow> string" where
  "strip s = rev (dropWhile isspace (rev (dropWhile isspace s)))"

section \<open>Responses and the two output channels\<close>

definition failure :: "string \<Rightarrow> pyval" where
  "failure e = PDict [(''success'', PBool False), (''error'', PStr e)]"

definition pong :: pyval where
  "pong = PDict [(''success'', PBool True), (''message'', PStr ''pong'')]"

text \<open>
  The one float computation of the scripts is \<^verbatim>\<open>len(full_audio) / 24000.0\<close>: the length is
  converted to a double and the quotient of the two doubles is rounded to a double, both
  times to the nearest, ties to even. A double is a mantissa and a binary exponent;
  \<open>nearest_double a b\<close> is the double nearest to \<open>a / b\<close> for \<open>b > 0\<close>: the quotient is scaled
  into the range from \<open>2\<^sup>5\<^sup>2\<close> up to \<open>2\<^sup>5\<^sup>3\<close> and rounded to an integer there, which gives
  the 53 significant bits of binary64. The exponent is not bounded: an array has fewer than
  \<open>2\<^sup>6\<^sup>3\<close> elements, and for such lengths neither the conversion nor the quotient leaves
  the exponent range of binary64.
\<close>

definition round_half_even :: "nat \<Rightarrow> nat \<Rightarrow> nat" where
  "round_half_even num den =
     (let q = num div den; r = num mod den
      in if 2 * r < den then q
         else if den < 2 * r then q + 1
         else if even q then q else q + 1)"

definition nearest_double :: "nat \<Rightarrow> nat \<Rightarrow> nat \<times> int" where
  "nearest_double a b =
     (if a = 0 then (0, 0)
      else
        (let e0 = int (floorlog 2 a) - int (floorlog 2 b) - 53;
             num = a * 2 ^ nat (- e0);
             den = b * 2 ^ nat e0
         in if 2 ^ 53 * den \<le> num then (round_half_even num (2 * den), e0 + 1)
            else (round_half_even num den, e0)))"

definition double_value :: "nat \<times> int \<Rightarrow> real" where
  "double_value d = real (fst d) * 2 powi (snd d)"

definition int_to_float :: "nat \<Rightarrow> nat \<times> int" where
  "int_to_float n = nearest_double n 1"

definition float_div :: "nat \<times> int \<Rightarrow> nat \<Rightarrow> nat \<times> int" where
  "float_div x d = nearest_double (fst x * 2 ^ nat (snd x)) (d * 2 ^ nat (- snd x))"

text \<open>\<^verbatim>\<open>n / 24000.0\<close> for a length \<open>n\<close>, as the number the resulting double denotes.\<close>

definition duration_of :: "nat \<Rightarrow> real" where
  "duration_of n = double_value (float_div (int_to_float n) 24000)"

definition success_result :: "pyval \<Rightarrow> nat \<Rightarrow> pyval" where
  "success_result output_path n = PDict
     [(''success'', PBool True),
      (''output_path'', output_path),
      (''duration'', PFloat (Finite (duration_of n))),
      (''sample_rate'', PInt 24000)]"

text \<open>
  What is written to a stream: \<open>Json v\<close> is one \<^verbatim>\<open>print(json.dumps(v))\<close>, the line that the
  standard serialiser produces for \<open>v\<close>; \<open>Text t\<close> is text written as it is;
  \<open>Traceback t\<close> is the interpreter's report of an uncaught exception.
\<close>

datatype out = Json pyval | Text string | Traceback string

datatype chan = Stdout | Stderr

section \<open>The external capabilities\<close>

text \<open>
  The model (\<^verbatim>\<open>KPipeline\<close>), the audio writer (\<^verbatim>\<open>soundfile.write\<close>) and the parser
  (\<^verbatim>\<open>json.loads\<close>) are libraries outside the repository, so they are parameters.
  \<open>'w\<close> is the state of the outside world, \<open>'h\<close> a pipeline handle and \<open>'s\<close> an audio sample.
  \<^item> \<open>loads\<close>: \<open>None\<close> is \<^verbatim>\<open>JSONDecodeError\<close>.
  \<^item> \<open>KPipeline\<close>: the constructor; it may write text to \<^verbatim>\<open>sys.stdout\<close> and
    \<^verbatim>\<open>sys.stderr\<close>, and either raises (\<open>Inl\<close> the message) or returns a handle.
  \<^item> \<open>call_pipeline\<close>: calling the handle and iterating the generator to its end: the text
    written meanwhile, the audio chunks yielded in order, and the message of the exception
    that ended the iteration, if one did.
  \<^item> \<open>sf_write\<close>: writing the samples to a path at a sample rate; \<open>Some\<close> is the message
    of the exception raised.

  An audio chunk is the list of its samples, so \<^verbatim>\<open>np.concatenate\<close> is \<open>concat\<close>. An
  exception is represented by its message \<^verbatim>\<open>str(e)\<close>; all of them are instances of
  \<^verbatim>\<open>Exception\<close>. Signals (\<^verbatim>\<open>KeyboardInterrupt\<close>), failures of the streams themselves
  and exhaustion of memory or of the recursion limit are outside the model.
\<close>

record ('w, 'h, 's) env =
  loads :: "string \<Rightarrow> pyval option"
  KPipeline :: "pyval \<Rightarrow> 'w \<Rightarrow> ((chan \<times> string) list \<times> (string + 'h)) \<times> 'w"
  call_pipeline :: "'h \<Rightarrow> pyval \<Rightarrow> pyval \<Rightarrow> 'w \<Rightarrow>
     ((chan \<times> string) list \<times> 's list list \<times> string option) \<times> 'w"
  sf_write :: "pyval \<Rightarrow> 's list \<Rightarrow> nat \<Rightarrow> 'w \<Rightarrow> string option \<times> 'w"

text \<open>
  The state of a running script: the outside world, the module-level dictionary
  \<^verbatim>\<open>pipelines\<close>, what has been written to the real standard output and standard error,
  and two logs kept for the statements below: every invocation of the constructor (its
  argument and its outcome) and every invocation of \<^verbatim>\<open>sf.write\<close>.
\<close>

record ('w, 'h, 's) state =
  world :: 'w
  pipelines :: "pykey \<rightharpoonup> 'h"
  stdout :: "out list"
  stderr :: "out list"
  ctor_log :: "(pyval \<times> (string + 'h)) list"
  write_log :: "(pyval \<times> 's list \<times> nat) list"

definition init :: "'w \<Rightarrow> ('w, 'h, 's) state" where
  "init w = \<lparr>world = w, pipelines = Map.empty, stdout = [], stderr = [],
     ctor_log = [], write_log = []\<rparr>"

definition print_out :: "pyval \<Rightarrow> ('w, 'h, 's) state \<Rightarrow> ('w, 'h, 's) state" where
  "print_out v s = s\<lparr>stdout := stdout s @ [Json v]\<rparr>"

definition print_err :: "pyval \<Rightarrow> ('w, 'h, 's) state \<Rightarrow> ('w, 'h, 's) state" where
  "print_err v s = s\<lparr>stderr := stderr s @ [Json v]\<rparr>"

definition texts_on :: "chan \<Rightarrow> (chan \<times> string) list \<Rightarrow> string list" where
  "texts_on c ems = map snd (filter (\<lambda>e. fst e = c) ems)"

text \<open>Text written by a library while the real streams are in place (the server).\<close>

definition emit :: "(chan \<times> string) list \<Rightarrow> ('w, 'h, 's) state \<Rightarrow> ('w, 'h, 's) state" where
  "emit ems s = s\<lparr>stdout := stdout s @ map Text (texts_on Stdout ems),
                  stderr := stderr s @ map Text (texts_on Stderr ems)\<rparr>"

section \<open>The persistent server\<close>

text \<open>
  \<^verbatim>\<open>get_pipeline\<close>: the membership test hashes the key first; the constructor runs before
  the assignment, so an exception leaves the dictionary as it was.
\<close>

definition get_pipeline ::
  "('w, 'h, 's) env \<Rightarrow> pyval \<Rightarrow> ('w, 'h, 's) state \<Rightarrow> (string + 'h) \<times> ('w, 'h, 's) state" where
  "get_pipeline E lang_code s =
     (case dict_key lang_code of
        None \<Rightarrow> (Inl (unhashable_msg lang_code), s)
      | Some k \<Rightarrow>
          (case pipelines s k of
             Some h \<Rightarrow> (Inr h, s)
           | None \<Rightarrow>
               (case KPipeline E lang_code (world s) of
                  ((ems, r), w') \<Rightarrow>
                    (let s1 = emit ems (s\<lparr>world := w', ctor_log := ctor_log s @ [(lang_code, r)]\<rparr>)
                     in case r of
                          Inl e \<Rightarrow> (Inl e, s1)
                        | Inr h \<Rightarrow> (Inr h, s1\<lparr>pipelines := (pipelines s1)(k \<mapsto> h)\<rparr>)))))"

text \<open>\<^verbatim>\<open>generate_audio\<close>: every exception becomes a failure response.\<close>

definition generate_audio ::
  "('w, 'h, 's) env \<Rightarrow> pyval \<Rightarrow> pyval \<Rightarrow> pyval \<Rightarrow> pyval \<Rightarrow> ('w, 'h, 's) state
     \<Rightarrow> pyval \<times> ('w, 'h, 's) state" where
  "generate_audio E text voice lang_code output_path s =
     (case get_pipeline E lang_code s of
        (Inl e, s1) \<Rightarrow> (failure e, s1)
      | (Inr pipeline, s1) \<Rightarrow>
          (case call_pipeline E pipeline text voice (world s1) of
             ((ems, audio_segments, exn), w2) \<Rightarrow>
               (let s2 = emit ems (s1\<lparr>world := w2\<rparr>)
                in case exn of
                     Some e \<Rightarrow> (failure e, s2)
                   | None \<Rightarrow>
                       if audio_segments = [] then (failure ''No audio generated'', s2)
                       else
                         (let full_audio = concat audio_segments
                          in case sf_write E output_path full_audio 24000 (world s2) of
                               (r, w3) \<Rightarrow>
                                 (let s3 = s2\<lparr>world := w3,
                                        write_log := write_log s2 @ [(output_path, full_audio, 24000)]\<rparr>
                                  in case r of
                                       Some e \<Rightarrow> (failure e, s3)
                                     | None \<Rightarrow>
                                         (success_result output_path (length full_audio), s3))))))"

text \<open>
  The body of the loop of \<^verbatim>\<open>main\<close> for one line. \<open>Next\<close> goes on to the following line
  (\<^verbatim>\<open>continue\<close> or the end of the body); \<open>Stop\<close> leaves the loop: \<^verbatim>\<open>break\<close>, or an
  exception that reaches the handler around the loop, which prints it to standard error.
  \<^verbatim>\<open>command.get\<close> exists on dictionaries only.
\<close>

datatype 'a ctl = Next 'a | Stop 'a

definition main_body ::
  "('w, 'h, 's) env \<Rightarrow> string \<Rightarrow> ('w, 'h, 's) state \<Rightarrow> ('w, 'h, 's) state ctl" where
  "main_body E line s =
     (if strip line = [] then Next s
      else case loads E (strip line) of
        None \<Rightarrow> Next (print_out (failure ''Invalid JSON'') s)
      | Some command \<Rightarrow>
          (case command of
             PDict kvs \<Rightarrow>
               if dict_get kvs ''action'' = PStr ''generate'' then
                 (let text = dict_get kvs ''text'';
                      voice = dict_get kvs ''voice'';
                      lang_code = dict_get kvs ''lang_code'';
                      output_path = dict_get kvs ''output_path''
                  in if \<not> (truthy text \<and> truthy voice \<and> truthy lang_code \<and> truthy output_path)
                     then Next (print_out (failure ''Missing required parameters'') s)
                     else (case generate_audio E text voice lang_code output_path s of
                             (result, s') \<Rightarrow> Next (print_out result s')))
               else if dict_get kvs ''action'' = PStr ''ping'' then Next (print_out pong s)
               else if dict_get kvs ''action'' = PStr ''exit'' then Stop s
               else Next (print_out (failure ''Unknown action'') s)
           | _ \<Rightarrow> Stop (print_err (failure (no_attribute_msg command ''get'')) s)))"

fun server_main ::
  "('w, 'h, 's) env \<Rightarrow> string list \<Rightarrow> ('w, 'h, 's) state \<Rightarrow> ('w, 'h, 's) state" where
  "server_main E [] s = s"
| "server_main E (line # rest) s =
     (case main_body E line s of
        Next s' \<Rightarrow> server_main E rest s'
      | Stop s' \<Rightarrow> s')"

text \<open>
  The script as a process: the import of \<^verbatim>\<open>kokoro\<close> is attempted first; the result is
  the exit status and the final state.
\<close>

definition import_error_msg :: string where
  "import_error_msg = ''ERROR: kokoro package not installed. Install with: pip install kokoro>=0.9.4''"

definition server_script ::
  "('w, 'h, 's) env \<Rightarrow> bool \<Rightarrow> string list \<Rightarrow> 'w \<Rightarrow> nat \<times> ('w, 'h, 's) state" where
  "server_script E installed lines w =
     (if \<not> installed then (1, (init w)\<lparr>stderr := [Text import_error_msg]\<rparr>)
      else (0, server_main E lines (init w)))"

section \<open>The one-shot helper\<close>

text \<open>
  \<^verbatim>\<open>kokoro_python_helper.py\<close>. While the pipeline is built and the generator consumed,
  \<^verbatim>\<open>sys.stdout\<close> and \<^verbatim>\<open>sys.stderr\<close> are in-memory buffers; the \<^verbatim>\<open>finally\<close> clause puts
  the real streams back and writes the captured standard error, if any, to the real one.
  The captured standard output is never read again.
\<close>

definition usage_msg :: string where
  "usage_msg = ''ERROR: Usage: python kokoro_python_helper.py <text> <voice> <lang_code> <output_path>''"

definition restore :: "(chan \<times> string) list \<Rightarrow> ('w, 'h, 's) state \<Rightarrow> ('w, 'h, 's) state" where
  "restore ems s =
     (let stderr_content = concat (texts_on Stderr ems)
      in if stderr_content \<noteq> [] then s\<lparr>stderr := stderr s @ [Text stderr_content]\<rparr> else s)"

text \<open>
  \<open>argv\<close> is \<^verbatim>\<open>sys.argv\<close>, the script's name first. With exactly four entries the test
  \<^verbatim>\<open>len(sys.argv) < 4\<close> passes and \<^verbatim>\<open>sys.argv[4]\<close> raises \<^verbatim>\<open>IndexError\<close> outside
  every handler. The helper keeps no cache: \<open>pipelines\<close> is left as it is.
\<close>

definition helper_main ::
  "('w, 'h, 's) env \<Rightarrow> string list \<Rightarrow> ('w, 'h, 's) state \<Rightarrow> nat \<times> ('w, 'h, 's) state" where
  "helper_main E argv s =
     (if length argv < 4 then (1, s\<lparr>stderr := stderr s @ [Text usage_msg]\<rparr>)
      else if length argv < 5 then
        (1, s\<lparr>stderr := stderr s @ [Traceback ''IndexError: list index out of range'']\<rparr>)
      else
        (let text = PStr (argv ! 1);
             voice = PStr (argv ! 2);
             lang_code = PStr (argv ! 3);
             output_path = PStr (argv ! 4)
         in case KPipeline E lang_code (world s) of
              ((ems1, r1), w1) \<Rightarrow>
                (let s1 = s\<lparr>world := w1, ctor_log := ctor_log s @ [(lang_code, r1)]\<rparr>
                 in case r1 of
                      Inl e \<Rightarrow> (1, print_err (failure e) (restore ems1 s1))
                    | Inr pipeline \<Rightarrow>
                        (case call_pipeline E pipeline text voice (world s1) of
                           ((ems2, audio_segments, exn), w2) \<Rightarrow>
                             (let s2 = restore (ems1 @ ems2) (s1\<lparr>world := w2\<rparr>)
                              in case exn of
                                   Some e \<Rightarrow> (1, print_err (failure e) s2)
                                 | None \<Rightarrow>
                                     if audio_segments \<noteq> [] then
                                       (let full_audio = concat audio_segments
                                        in case sf_write E output_path full_audio 24000 (world s2) of
                                             (r, w3) \<Rightarrow>
                                               (let s3 = s2\<lparr>world := w3,
                                                      write_log := write_log s2 @
                                                        [(output_path, full_audio, 24000)]\<rparr>
                                                in case r of
                                                     Some e \<Rightarrow> (1, print_err (failure e) s3)
                                                   | None \<Rightarrow>
                                                       (0, print_out
                                                          (success_result output_path (length full_audio)) s3)))
                                     else (1, print_err (failure ''No audio generated'') s2))))))"

definition helper_script ::
  "('w, 'h, 's) env \<Rightarrow> bool \<Rightarrow> string list \<Rightarrow> 'w \<Rightarrow> nat \<times> ('w, 'h, 's) state" where
  "helper_script E installed argv w =
     (if \<not> installed then (1, (init w)\<lparr>stderr := [Text import_error_msg]\<rparr>)
      else helper_main E argv (init w))"

section \<open>Notions used in the statements\<close>

text \<open>
  The state a loop step leaves behind, whichever way it ends; the constructor invocations
  recorded for one dictionary key; and the invariant that ties the dictionary
  \<^verbatim>\<open>pipelines\<close> to that record: while a key is absent every invocation for it has raised,
  and once it is present the invocation that returned its handle is the last one for it.
\<close>

definition ctl_state :: "'a ctl \<Rightarrow> 'a" where
  "ctl_state c = (case c of Next s \<Rightarrow> s | Stop s \<Rightarrow> s)"

definition entries_for :: "pykey \<Rightarrow> ('w, 'h, 's) state \<Rightarrow> (pyval \<times> (string + 'h)) list" where
  "entries_for k s = filter (\<lambda>e. dict_key (fst e) = Some k) (ctor_log s)"

definition calls_for :: "pykey \<Rightarrow> ('w, 'h, 's) state \<Rightarrow> nat" where
  "calls_for k s = length (entries_for k s)"

definition raised :: "(pyval \<times> (string + 'h)) \<Rightarrow> bool" where
  "raised e = isl (snd e)"

definition cache_inv :: "('w, 'h, 's) state \<Rightarrow> bool" where
  "cache_inv s \<longleftrightarrow>
     (\<forall>k. (pipelines s k = None \<longrightarrow> list_all raised (entries_for k s)) \<and>
          (\<forall>h. pipelines s k = Some h \<longrightarrow>
             (\<exists>pre l. entries_for k s = pre @ [(l, Inr h)] \<and> list_all raised pre)))"

text \<open>
  The shapes of a response: a failure, the answer to \<^verbatim>\<open>ping\<close>, and the result of a
  successful generation. \<open>responses\<close> collects every object a script has printed, on either
  stream. \<open>quiet_stdout\<close> says that the model writes nothing to \<^verbatim>\<open>sys.stdout\<close>.
\<close>

fun keys_of :: "pyval \<Rightarrow> string list" where
  "keys_of (PDict kvs) = map fst kvs"
| "keys_of _ = []"

fun field :: "pyval \<Rightarrow> string \<Rightarrow> pyval" where
  "field (PDict kvs) k = dict_get kvs k"
| "field _ k = PNone"

fun is_str :: "pyval \<Rightarrow> bool" where
  "is_str (PStr _) = True"
| "is_str _ = False"

fun is_float :: "pyval \<Rightarrow> bool" where
  "is_float (PFloat _) = True"
| "is_float _ = False"

definition is_failure :: "pyval \<Rightarrow> bool" where
  "is_failure r \<longleftrightarrow>
     keys_of r = [''success'', ''error''] \<and> field r ''success'' = PBool False \<and>
     is_str (field r ''error'')"

definition is_pong :: "pyval \<Rightarrow> bool" where
  "is_pong r \<longleftrightarrow>
     keys_of r = [''success'', ''message''] \<and> field r ''success'' = PBool True \<and>
     field r ''message'' = PStr ''pong''"

definition is_generated :: "pyval \<Rightarrow> bool" where
  "is_generated r \<longleftrightarrow>
     keys_of r = [''success'', ''output_path'', ''duration'', ''sample_rate''] \<and>
     field r ''success'' = PBool True \<and> is_float (field r ''duration'') \<and>
     field r ''sample_rate'' = PInt 24000"

definition is_success :: "pyval \<Rightarrow> bool" where
  "is_success r \<longleftrightarrow> is_pong r \<or> is_generated r"

definition well_shaped :: "pyval \<Rightarrow> bool" where
  "well_shaped r \<longleftrightarrow>
     (is_success r \<or> is_failure r) \<and> \<not> (is_success r \<and> is_failure r) \<and>
     \<not> (field r ''success'' = PBool True \<and> ''error'' \<in> set (keys_of r))"

fun json_of :: "out \<Rightarrow> pyval list" where
  "json_of (Json r) = [r]"
| "json_of _ = []"

definition responses :: "('w, 'h, 's) state \<Rightarrow> pyval list" where
  "responses s = concat (map json_of (stdout s @ stderr s))"


fun is_text :: "out \<Rightarrow> bool" where
  "is_text (Text _) = True"
| "is_text _ = False"

definition quiet_stdout :: "('w, 'h, 's) env \<Rightarrow> bool" where
  "quiet_stdout E \<longleftrightarrow>
     (\<forall>l w. texts_on Stdout (fst (fst (KPipeline E l w))) = []) \<and>
     (\<forall>h t v w. texts_on Stdout (fst (fst (call_pipeline E h t v w))) = [])"

text \<open>
  A line on a stream is a JSON response when it is a printed object of one of the shapes;
  \<open>added\<close> relates a state to a later one whose streams extend the earlier ones by JSON
  responses and text only, and by JSON responses only on standard output when the model is
  quiet there.
\<close>

fun is_json_response :: "out \<Rightarrow> bool" where
  "is_json_response (Json r) = well_shaped r"
| "is_json_response _ = False"

definition response_or_text :: "out \<Rightarrow> bool" where
  "response_or_text i \<longleftrightarrow> is_json_response i \<or> is_text i"

definition added :: "('w, 'h, 's) env \<Rightarrow> ('w, 'h, 's) state \<Rightarrow> ('w, 'h, 's) state \<Rightarrow> bool" where
  "added E s s' \<longleftrightarrow>
     (\<exists>outs errs. stdout s' = stdout s @ outs \<and> stderr s' = stderr s @ errs \<and>
        list_all response_or_text outs \<and> list_all response_or_text errs \<and>
        (quiet_stdout E \<longrightarrow> list_all is_json_response outs))"

section \<open>A fake model for concrete runs\<close>

text \<open>
  A fake capability in the manner of a test double: the parser knows a handful of request
  lines, the constructor accepts the language code \<^verbatim>\<open>e\<close> only and hands out the number
  of the construction as the handle, synthesis of \<^verbatim>\<open>hola\<close> yields two chunks of two and
  one samples and any other text yields none, and writing succeeds for \<^verbatim>\<open>out.wav\<close>.
  The fake model writes its progress text to the channel given as the parameter.
\<close>

definition generate_line :: "string \<Rightarrow> string" where
  \<open>generate_line lang = ''{"action": "generate", "text": "hola", "voice": "ef_dora", "lang_code": "'' @ lang @ ''", "output_path": "out.wav"}''\<close>

definition generate_request :: "string \<Rightarrow> pyval" where
  "generate_request lang = PDict [(''action'', PStr ''generate''), (''text'', PStr ''hola''),
     (''voice'', PStr ''ef_dora''), (''lang_code'', PStr lang), (''output_path'', PStr ''out.wav'')]"

definition ping_line :: string where
  \<open>ping_line = ''{"action": "ping"}''\<close>

definition exit_line :: string where
  \<open>exit_line = ''{"action": "exit"}''\<close>

definition bare_generate_line :: string where
  \<open>bare_generate_line = ''{"action": "generate"}''\<close>

definition fake_loads :: "string \<Rightarrow> pyval option" where
  "fake_loads l =
     (if l = ''[1]'' then Some (PList [PInt 1])
      else if l = ping_line then Some (PDict [(''action'', PStr ''ping'')])
      else if l = exit_line then Some (PDict [(''action'', PStr ''exit'')])
      else if l = bare_generate_line then Some (PDict [(''action'', PStr ''generate'')])
      else if l = generate_line ''e'' then Some (generate_request ''e'')
      else if l = generate_line ''q'' then Some (generate_request ''q'')
      else None)"

definition fake_KPipeline :: "chan \<Rightarrow> pyval \<Rightarrow> nat \<Rightarrow> ((chan \<times> string) list \<times> (string + nat)) \<times> nat" where
  "fake_KPipeline c lang_code w =
     (([(c, ''loading model'')],
       if lang_code = PStr ''e'' then Inr w else Inl ''unsupported language code''), Suc w)"

definition fake_call :: "chan \<Rightarrow> nat \<Rightarrow> pyval \<Rightarrow> pyval \<Rightarrow> nat \<Rightarrow>
    ((chan \<times> string) list \<times> nat list list \<times> string option) \<times> nat" where
  "fake_call c h text voice w =
     (([(c, ''synthesising'')], if text = PStr ''hola'' then [[1, 2], [3]] else [], None), w)"

definition fake_sf_write :: "pyval \<Rightarrow> nat list \<Rightarrow> nat \<Rightarrow> nat \<Rightarrow> string option \<times> nat" where
  "fake_sf_write path samples rate w =
     (if path = PStr ''out.wav'' then (None, w + 10) else (Some ''Error opening file'', w))"

definition fake_env :: "chan \<Rightarrow> (nat, nat, nat) env" where
  "fake_env c = \<lparr>loads = fake_loads, KPipeline = fake_KPipeline c,
     call_pipeline = fake_call c, sf_write = fake_sf_write\<rparr>"

section \<open>Basic facts about the model\<close>

lemmas fake_defs = fake_env_def fake_KPipeline_def fake_call_def fake_sf_write_def fake_loads_def
  generate_line_def generate_request_def ping_line_def exit_line_def bare_generate_line_def

lemmas run_defs = main_body_def generate_audio_def get_pipeline_def strip_def isspace_def
  dict_get_def Let_def

lemma ctl_state_simps [simp]: "ctl_state (Next s) = s" "ctl_state (Stop s) = s"
  by (simp_all add: ctl_state_def)

lemma print_out_fields [simp]:
  "world (print_out v s) = world s"
  "pipelines (print_out v s) = pipelines s"
  "stdout (print_out v s) = stdout s @ [Json v]"
  "stderr (print_out v s) = stderr s"
  "ctor_log (print_out v s) = ctor_log s"
  "write_log (print_out v s) = write_log s"
  by (simp_all add: print_out_def)

lemma print_err_fields [simp]:
  "world (print_err v s) = world s"
  "pipelines (print_err v s) = pipelines s"
  "stdout (print_err v s) = stdout s"
  "stderr (print_err v s) = stderr s @ [Json v]"
  "ctor_log (print_err v s) = ctor_log s"
  "write_log (print_err v s) = write_log s"
  by (simp_all add: print_err_def)

lemma emit_fields [simp]:
  "world (emit ems s) = world s"
  "pipelines (emit ems s) = pipelines s"
  "stdout (emit ems s) = stdout s @ map Text (texts_on Stdout ems)"
  "stderr (emit ems s) = stderr s @ map Text (texts_on Stderr ems)"
  "ctor_log (emit ems s) = ctor_log s"
  "write_log (emit ems s) = write_log s"
  by (simp_all add: emit_def)

lemma restore_fields [simp]:
  "world (restore ems s) = world s"
  "pipelines (restore ems s) = pipelines s"
  "stdout (restore ems s) = stdout s"
  "ctor_log (restore ems s) = ctor_log s"
  "write_log (restore ems s) = write_log s"
  by (simp_all add: restore_def Let_def)

lemma init_fields [simp]:
  "world (init w) = w"
  "pipelines (init w) = Map.empty"
  "stdout (init w) = []"
  "stderr (init w) = []"
  "ctor_log (init w) = []"
  "write_log (init w) = []"
  by (simp_all add: init_def)

lemma cache_inv_cong:
  "pipelines s' = pipelines s \<Longrightarrow> ctor_log s' = ctor_log s \<Longrightarrow> cache_inv s' = cache_inv s"
  unfolding cache_inv_def entries_for_def by simp

lemma cache_inv_init: "cache_inv (init w)"
  by (simp add: cache_inv_def entries_for_def)

lemma get_pipeline_write_log: "write_log (snd (get_pipeline E l s)) = write_log s"
  by (simp add: get_pipeline_def Let_def split: option.splits prod.splits sum.splits)

lemma get_pipeline_hit:
  "dict_key l = Some k \<Longrightarrow> pipelines s k = Some h \<Longrightarrow> get_pipeline E l s = (Inr h, s)"
  by (simp add: get_pipeline_def)

lemma get_pipeline_unhashable:
  "dict_key l = None \<Longrightarrow> get_pipeline E l s = (Inl (unhashable_msg l), s)"
  by (simp add: get_pipeline_def)

lemma get_pipeline_miss:
  assumes "dict_key l = Some k" "pipelines s k = None" "KPipeline E l (world s) = ((ems, r), w')"
  shows "fst (get_pipeline E l s) = r"
    and "world (snd (get_pipeline E l s)) = w'"
    and "ctor_log (snd (get_pipeline E l s)) = ctor_log s @ [(l, r)]"
    and "pipelines (snd (get_pipeline E l s)) =
           (case r of Inl e \<Rightarrow> pipelines s | Inr h \<Rightarrow> (pipelines s)(k \<mapsto> h))"
    and "stdout (snd (get_pipeline E l s)) = stdout s @ map Text (texts_on Stdout ems)"
    and "stderr (snd (get_pipeline E l s)) = stderr s @ map Text (texts_on Stderr ems)"
  using assms by (simp_all add: get_pipeline_def Let_def split: sum.splits)

lemma get_pipeline_cache_inv:
  assumes "cache_inv s"
  shows "cache_inv (snd (get_pipeline E l s))"
proof (cases "dict_key l")
  case None
  then show ?thesis using assms by (simp add: get_pipeline_unhashable)
next
  case (Some k)
  show ?thesis
  proof (cases "pipelines s k")
    case (Some h)
    then show ?thesis using assms \<open>dict_key l = Some k\<close> by (simp add: get_pipeline_hit)
  next
    case None
    obtain ems r w' where K: "KPipeline E l (world s) = ((ems, r), w')"
      by (metis prod.exhaust)
    note M = get_pipeline_miss [OF \<open>dict_key l = Some k\<close> None K]
    let ?s' = "snd (get_pipeline E l s)"
    have inv: "(pipelines s k' = None \<longrightarrow> list_all raised (entries_for k' s)) \<and>
          (\<forall>h. pipelines s k' = Some h \<longrightarrow>
             (\<exists>pre l. entries_for k' s = pre @ [(l, Inr h)] \<and> list_all raised pre))" for k'
      using assms unfolding cache_inv_def by blast
    have old: "list_all raised (entries_for k s)"
      using inv [of k] None by simp
    have here: "entries_for k ?s' = entries_for k s @ [(l, r)]"
      using M(3) \<open>dict_key l = Some k\<close> by (simp add: entries_for_def)
    have other: "entries_for k' ?s' = entries_for k' s" if "k' \<noteq> k" for k'
      using M(3) \<open>dict_key l = Some k\<close> that by (simp add: entries_for_def)
    show ?thesis unfolding cache_inv_def
    proof
      fix k'
      show "(pipelines ?s' k' = None \<longrightarrow> list_all raised (entries_for k' ?s')) \<and>
          (\<forall>h. pipelines ?s' k' = Some h \<longrightarrow>
             (\<exists>pre l. entries_for k' ?s' = pre @ [(l, Inr h)] \<and> list_all raised pre))"
      proof (cases "k' = k")
        case True
        show ?thesis
        proof (cases r)
          case (Inl e)
          with True M(4) None here old show ?thesis by (simp add: raised_def)
        next
          case (Inr h)
          with True M(4) here old show ?thesis by simp
        qed
      next
        case False
        have "pipelines ?s' k' = pipelines s k'"
          using M(4) False by (cases r) simp_all
        with other [OF False] inv [of k'] show ?thesis by simp
      qed
    qed
  qed
qed

lemma generate_audio_cache_fields:
  "pipelines (snd (generate_audio E t v l p s)) = pipelines (snd (get_pipeline E l s))"
  "ctor_log (snd (generate_audio E t v l p s)) = ctor_log (snd (get_pipeline E l s))"
  by (simp_all add: generate_audio_def Let_def split: option.splits prod.splits sum.splits)

lemma generate_audio_cache_inv:
  "cache_inv s \<Longrightarrow> cache_inv (snd (generate_audio E t v l p s))"
  using cache_inv_cong [OF generate_audio_cache_fields] get_pipeline_cache_inv by blast

lemma main_body_blank: "strip line = [] \<Longrightarrow> main_body E line s = Next s"
  by (simp add: main_body_def)

lemma main_body_invalid:
  "strip line \<noteq> [] \<Longrightarrow> loads E (strip line) = None \<Longrightarrow>
   main_body E line s = Next (print_out (failure ''Invalid JSON'') s)"
  by (simp add: main_body_def)

lemma main_body_not_dict:
  "strip line \<noteq> [] \<Longrightarrow> loads E (strip line) = Some command \<Longrightarrow>
   \<forall>kvs. command \<noteq> PDict kvs \<Longrightarrow>
   main_body E line s = Stop (print_err (failure (no_attribute_msg command ''get'')) s)"
  by (cases command) (simp_all add: main_body_def)

lemma main_body_missing:
  "strip line \<noteq> [] \<Longrightarrow> loads E (strip line) = Some (PDict kvs) \<Longrightarrow>
   dict_get kvs ''action'' = PStr ''generate'' \<Longrightarrow>
   \<not> (truthy (dict_get kvs ''text'') \<and> truthy (dict_get kvs ''voice'') \<and>
      truthy (dict_get kvs ''lang_code'') \<and> truthy (dict_get kvs ''output_path'')) \<Longrightarrow>
   main_body E line s = Next (print_out (failure ''Missing required parameters'') s)"
  by (simp add: main_body_def Let_def)

lemma main_body_generate:
  "strip line \<noteq> [] \<Longrightarrow> loads E (strip line) = Some (PDict kvs) \<Longrightarrow>
   dict_get kvs ''action'' = PStr ''generate'' \<Longrightarrow>
   truthy (dict_get kvs ''text'') \<Longrightarrow> truthy (dict_get kvs ''voice'') \<Longrightarrow>
   truthy (dict_get kvs ''lang_code'') \<Longrightarrow> truthy (dict_get kvs ''output_path'') \<Longrightarrow>
   g = generate_audio E (dict_get kvs ''text'') (dict_get kvs ''voice'')
         (dict_get kvs ''lang_code'') (dict_get kvs ''output_path'') s \<Longrightarrow>
   main_body E line s = Next (print_out (fst g) (snd g))"
  by (simp add: main_body_def Let_def split: prod.splits)

lemma main_body_ping:
  "strip line \<noteq> [] \<Longrightarrow> loads E (strip line) = Some (PDict kvs) \<Longrightarrow>
   dict_get kvs ''action'' = PStr ''ping'' \<Longrightarrow>
   main_body E line s = Next (print_out pong s)"
  by (simp add: main_body_def)

lemma main_body_exit:
  "strip line \<noteq> [] \<Longrightarrow> loads E (strip line) = Some (PDict kvs) \<Longrightarrow>
   dict_get kvs ''action'' = PStr ''exit'' \<Longrightarrow>
   main_body E line s = Stop s"
  by (simp add: main_body_def)

lemma main_body_unknown:
  "strip line \<noteq> [] \<Longrightarrow> loads E (strip line) = Some (PDict kvs) \<Longrightarrow>
   dict_get kvs ''action'' \<noteq> PStr ''generate'' \<Longrightarrow>
   dict_get kvs ''action'' \<noteq> PStr ''ping'' \<Longrightarrow>
   dict_get kvs ''action'' \<noteq> PStr ''exit'' \<Longrightarrow>
   main_body E line s = Next (print_out (failure ''Unknown action'') s)"
  by (simp add: main_body_def)

lemma main_body_disj:
  "ctl_state (main_body E line s) = s \<or>
   (\<exists>v. ctl_state (main_body E line s) = print_out v s \<and>
      (v = failure ''Invalid JSON'' \<or> v = failure ''Missing required parameters'' \<or>
       v = pong \<or> v = failure ''Unknown action'')) \<or>
   (\<exists>e. ctl_state (main_body E line s) = print_err (failure e) s) \<or>
   (\<exists>t v l p. ctl_state (main_body E line s) =
      print_out (fst (generate_audio E t v l p s)) (snd (generate_audio E t v l p s)))"
proof (cases "strip line = []")
  case True
  then show ?thesis by (simp add: main_body_blank)
next
  case nonblank: False
  show ?thesis
  proof (cases "loads E (strip line)")
    case None
    with nonblank have "ctl_state (main_body E line s) = print_out (failure ''Invalid JSON'') s"
      by (simp add: main_body_invalid)
    then show ?thesis by blast
  next
    case (Some command)
    show ?thesis
    proof (cases "\<exists>kvs. command = PDict kvs")
      case False
      with nonblank Some
      have "ctl_state (main_body E line s) = print_err (failure (no_attribute_msg command ''get'')) s"
        by (simp add: main_body_not_dict)
      then show ?thesis by blast
    next
      case True
      then obtain kvs where L: "loads E (strip line) = Some (PDict kvs)" using Some by blast
      consider (gen_missing) "dict_get kvs ''action'' = PStr ''generate''"
          "\<not> (truthy (dict_get kvs ''text'') \<and> truthy (dict_get kvs ''voice'') \<and>
             truthy (dict_get kvs ''lang_code'') \<and> truthy (dict_get kvs ''output_path''))"
        | (gen) "dict_get kvs ''action'' = PStr ''generate''"
          "truthy (dict_get kvs ''text'')" "truthy (dict_get kvs ''voice'')"
          "truthy (dict_get kvs ''lang_code'')" "truthy (dict_get kvs ''output_path'')"
        | (ping) "dict_get kvs ''action'' = PStr ''ping''"
        | (exit) "dict_get kvs ''action'' = PStr ''exit''"
        | (unknown) "dict_get kvs ''action'' \<noteq> PStr ''generate''"
          "dict_get kvs ''action'' \<noteq> PStr ''ping''" "dict_get kvs ''action'' \<noteq> PStr ''exit''"
        by blast
      then show ?thesis
      proof cases
        case gen_missing
        then have "ctl_state (main_body E line s) =
            print_out (failure ''Missing required parameters'') s"
          using main_body_missing [OF nonblank L] by simp
        then show ?thesis by blast
      next
        case gen
        have "ctl_state (main_body E line s) =
            print_out (fst (generate_audio E (dict_get kvs ''text'') (dict_get kvs ''voice'')
                 (dict_get kvs ''lang_code'') (dict_get kvs ''output_path'') s))
              (snd (generate_audio E (dict_get kvs ''text'') (dict_get kvs ''voice'')
                 (dict_get kvs ''lang_code'') (dict_get kvs ''output_path'') s))"
          using main_body_generate [OF nonblank L gen refl] by simp
        then show ?thesis by blast
      next
        case ping
        then have "ctl_state (main_body E line s) = print_out pong s"
          using main_body_ping [OF nonblank L] by simp
        then show ?thesis by blast
      next
        case exit
        then have "ctl_state (main_body E line s) = s"
          using main_body_exit [OF nonblank L] by simp
        then show ?thesis by blast
      next
        case unknown
        then have "ctl_state (main_body E line s) = print_out (failure ''Unknown action'') s"
          using main_body_unknown [OF nonblank L] by simp
        then show ?thesis by blast
      qed
    qed
  qed
qed

lemma main_body_cases:
  obtains (Same) "ctl_state (main_body E line s) = s"
  | (Fixed) v where "ctl_state (main_body E line s) = print_out v s"
      "v = failure ''Invalid JSON'' \<or> v = failure ''Missing required parameters'' \<or>
       v = pong \<or> v = failure ''Unknown action''"
  | (Raised) e where "ctl_state (main_body E line s) = print_err (failure e) s"
  | (Generated) t v l p where
      "ctl_state (main_body E line s) =
         print_out (fst (generate_audio E t v l p s)) (snd (generate_audio E t v l p s))"
  using main_body_disj [of E line s] by blast

lemma main_body_cache_inv:
  assumes "cache_inv s"
  shows "cache_inv (ctl_state (main_body E line s))"
proof (cases E line s rule: main_body_cases)
  case Same
  then show ?thesis using assms by simp
next
  case (Fixed v)
  then show ?thesis using assms cache_inv_cong [of "print_out v s" s] by simp
next
  case (Raised e)
  then show ?thesis using assms cache_inv_cong [of "print_err (failure e) s" s] by simp
next
  case (Generated t v l p)
  then show ?thesis
    using generate_audio_cache_inv [OF assms, of E t v l p]
      cache_inv_cong [of "print_out (fst (generate_audio E t v l p s)) (snd (generate_audio E t v l p s))"
        "snd (generate_audio E t v l p s)"]
    by simp
qed

lemma server_main_cache_inv:
  "cache_inv s \<Longrightarrow> cache_inv (server_main E lines s)"
proof (induction lines arbitrary: s)
  case Nil
  then show ?case by simp
next
  case (Cons line rest)
  from main_body_cache_inv [OF Cons.prems, of E line] show ?case
    by (cases "main_body E line s") (simp_all add: Cons.IH)
qed

lemma shape_failure [simp]:
  "is_failure (failure e)" "\<not> is_success (failure e)" "well_shaped (failure e)"
  by (simp_all add: well_shaped_def is_failure_def is_success_def is_pong_def is_generated_def
      failure_def dict_get_def)

lemma shape_pong [simp]:
  "\<not> is_failure pong" "is_success pong" "well_shaped pong"
  by (simp_all add: well_shaped_def is_failure_def is_success_def is_pong_def is_generated_def
      pong_def dict_get_def)

lemma shape_success_result [simp]:
  "\<not> is_failure (success_result p n)" "is_success (success_result p n)"
  "well_shaped (success_result p n)"
  by (simp_all add: well_shaped_def is_failure_def is_success_def is_pong_def is_generated_def
      success_result_def dict_get_def)

text \<open>The error of the two roundings.\<close>

lemma round_half_even_error:
  assumes "0 < den"
  shows "\<bar>real (round_half_even num den) - real num / real den\<bar> \<le> 1 / 2"
proof -
  define q where "q = num div den"
  define r where "r = num mod den"
  have num: "num = q * den + r" by (simp add: q_def r_def)
  have rlt: "r < den" using assms by (simp add: r_def)
  have frac: "real num / real den = real q + real r / real den"
    using assms by (simp add: num field_simps)
  have r0: "0 \<le> real r / real den" by simp
  have r1: "real r / real den < 1" using rlt assms by simp
  consider (lo) "2 * r < den" | (hi) "den < 2 * r" | (tie) "2 * r = den" by linarith
  then show ?thesis
  proof cases
    case lo
    then have "real r / real den < 1 / 2" using assms by (simp add: field_simps)
    moreover have "round_half_even num den = q"
      using lo by (simp add: round_half_even_def q_def r_def Let_def)
    ultimately show ?thesis using frac r0 by simp
  next
    case hi
    then have "1 / 2 < real r / real den" using assms by (simp add: field_simps)
    moreover have "round_half_even num den = q + 1"
      using hi by (simp add: round_half_even_def q_def r_def Let_def)
    ultimately show ?thesis using frac r1 by simp
  next
    case tie
    then have h: "real r / real den = 1 / 2" using assms
      by (simp add: field_simps)
    have "round_half_even num den = q \<or> round_half_even num den = q + 1"
      using tie by (simp add: round_half_even_def q_def r_def Let_def)
    then show ?thesis using frac h by auto
  qed
qed

lemma normalised_lower:
  assumes "0 < a" "0 < b"
  defines "e0 \<equiv> int (floorlog 2 a) - int (floorlog 2 b) - 53"
  shows "2 ^ 52 * (b * 2 ^ nat e0) \<le> a * 2 ^ nat (- e0)"
proof -
  let ?la = "floorlog 2 a" and ?lb = "floorlog 2 b"
  have A: "2 ^ (?la - 1) \<le> a" using floorlog_bounds [of a 2] assms(1) by simp
  have B: "b < 2 ^ ?lb" using floorlog_bounds [of b 2] assms(2) by simp
  have la: "0 < ?la" using assms(1) by (simp add: floorlog_def)
  show ?thesis
  proof (cases "0 \<le> e0")
    case True
    then obtain k where k: "e0 = int k" by (metis nat_0_le)
    then have eq: "?la - 1 = 52 + ?lb + k" using e0_def by linarith
    have "2 ^ 52 * (b * 2 ^ k) \<le> 2 ^ 52 * (2 ^ ?lb * 2 ^ k)"
      using B by (simp add: less_imp_le)
    also have "\<dots> = 2 ^ (52 + ?lb + k)" by (simp add: power_add)
    also have "\<dots> \<le> a" using A eq by simp
    finally show ?thesis using k by simp
  next
    case False
    then obtain j where j: "- e0 = int j" by (metis nat_0_le neg_0_le_iff_le linear)
    then have eq: "?la - 1 + j = 52 + ?lb" using e0_def la by linarith
    have "2 ^ 52 * b \<le> 2 ^ 52 * 2 ^ ?lb" using B by (simp add: less_imp_le)
    also have "\<dots> = 2 ^ (?la - 1 + j)" using eq by (simp add: power_add)
    also have "\<dots> = 2 ^ (?la - 1) * 2 ^ j" by (simp add: power_add)
    also have "\<dots> \<le> a * 2 ^ j" using A by simp
    finally show ?thesis using j False by simp
  qed
qed

lemma scale_powi:
  "real (a * 2 ^ nat (- e)) / real (b * 2 ^ nat e) * 2 powi e = real a / real b"
proof (cases "0 \<le> e")
  case True
  then show ?thesis by (simp add: power_int_nonneg_exp)
next
  case False
  then have "2 powi e = 1 / (2::real) ^ nat (- e)"
    by (metis power_int_minus_divide power_int_nonneg_exp minus_minus neg_0_le_iff_le linear)
  with False show ?thesis by simp
qed

lemma scaled_error:
  fixes M m c S :: real
  assumes "\<bar>M - m\<bar> \<le> c" and "0 \<le> S"
  shows "\<bar>M * S - m * S\<bar> \<le> c * S"
proof -
  have "\<bar>M * S - m * S\<bar> = \<bar>M - m\<bar> * S"
    using assms(2) by (simp add: abs_mult flip: left_diff_distrib)
  also have "\<dots> \<le> c * S" using assms by (rule mult_right_mono)
  finally show ?thesis .
qed

lemma nearest_double_error:
  assumes "0 < a" "0 < b"
  shows "\<bar>double_value (nearest_double a b) - real a / real b\<bar> \<le> real a / real b / 2 ^ 53"
proof -
  define e0 where "e0 = int (floorlog 2 a) - int (floorlog 2 b) - 53"
  define num where "num = a * 2 ^ nat (- e0)"
  define den where "den = b * 2 ^ nat e0"
  have den: "0 < den" using assms by (simp add: den_def)
  have low: "2 ^ 52 * den \<le> num"
    using normalised_lower [OF assms] by (simp add: num_def den_def e0_def)
  have x: "real num / real den * 2 powi e0 = real a / real b"
    unfolding num_def den_def by (rule scale_powi)
  have S: "0 < (2::real) powi e0" by simp
  show ?thesis
  proof (cases "2 ^ 53 * den \<le> num")
    case True
    then have nd: "nearest_double a b = (round_half_even num (2 * den), e0 + 1)"
      using assms by (simp add: nearest_double_def Let_def e0_def num_def den_def)
    let ?M = "real (round_half_even num (2 * den))"
    have S1: "(2::real) powi (e0 + 1) = 2 * 2 powi e0" by (simp add: power_int_add)
    have x1: "real num / real (2 * den) * 2 powi (e0 + 1) = real a / real b"
      using x by (simp add: S1)
    have "\<bar>?M - real num / real (2 * den)\<bar> \<le> 1 / 2"
      using round_half_even_error [of "2 * den" num] den by simp
    then have "\<bar>?M * 2 powi (e0 + 1) - real num / real (2 * den) * 2 powi (e0 + 1)\<bar>
        \<le> 1 / 2 * 2 powi (e0 + 1)"
      by (rule scaled_error) simp
    then have err: "\<bar>?M * 2 powi (e0 + 1) - real a / real b\<bar> \<le> 2 powi e0"
      unfolding x1 by (simp add: S1)
    have "2 ^ 53 \<le> real num / real den"
      using True den by (simp add: pos_le_divide_eq)
    then have "2 ^ 53 * 2 powi e0 \<le> real a / real b"
      unfolding x [symmetric] by (intro mult_right_mono) simp_all
    then have "2 powi e0 \<le> real a / real b / 2 ^ 53" by (simp add: field_simps)
    with err show ?thesis by (simp add: nd double_value_def)
  next
    case False
    then have nd: "nearest_double a b = (round_half_even num den, e0)"
      using assms by (simp add: nearest_double_def Let_def e0_def num_def den_def)
    let ?M = "real (round_half_even num den)"
    have "\<bar>?M - real num / real den\<bar> \<le> 1 / 2"
      using round_half_even_error [of den num] den by simp
    then have "\<bar>?M * 2 powi e0 - real num / real den * 2 powi e0\<bar> \<le> 1 / 2 * 2 powi e0"
      by (rule scaled_error) simp
    then have err: "\<bar>?M * 2 powi e0 - real a / real b\<bar> \<le> 2 powi e0 / 2"
      unfolding x by simp
    have "2 ^ 52 \<le> real num / real den"
      using low den by (simp add: pos_le_divide_eq)
    then have "2 ^ 52 * 2 powi e0 \<le> real a / real b"
      unfolding x [symmetric] by (intro mult_right_mono) simp_all
    then have "2 powi e0 / 2 \<le> real a / real b / 2 ^ 53" by (simp add: field_simps)
    with err show ?thesis by (simp add: nd double_value_def)
  qed
qed

lemma scale_powi_div:
  "real (m * 2 ^ nat e) / real (d * 2 ^ nat (- e)) = real m * 2 powi e / real d"
proof (cases "0 \<le> e")
  case True
  then show ?thesis by (simp add: power_int_nonneg_exp)
next
  case False
  then have "2 powi e = 1 / (2::real) ^ nat (- e)"
    by (metis power_int_minus_divide power_int_nonneg_exp minus_minus neg_0_le_iff_le linear)
  with False show ?thesis by simp
qed

lemma duration_error:
  "\<bar>duration_of n - real n / 24000\<bar> \<le> real n / 24000 / 2 ^ 51"
proof (cases "n = 0")
  case True
  then show ?thesis
    by (simp add: duration_of_def int_to_float_def float_div_def nearest_double_def
        double_value_def)
next
  case False
  define x where "x = int_to_float n"
  define d1 where "d1 = double_value x"
  have E1: "\<bar>d1 - real n\<bar> \<le> real n / 2 ^ 53"
    using nearest_double_error [of n 1] False by (simp add: d1_def x_def int_to_float_def)
  have npos: "0 < real n" using False by simp
  have "real n / 2 ^ 53 < real n" using npos by simp
  with E1 have d1pos: "0 < d1" by linarith
  then have m: "0 < fst x" unfolding d1_def double_value_def
    by (cases "fst x = 0") simp_all
  let ?a = "fst x * 2 ^ nat (snd x)" and ?b = "(24000::nat) * 2 ^ nat (- snd x)"
  have a: "0 < ?a" using m by simp
  have b: "0 < ?b" by simp
  have ratio: "real ?a / real ?b = d1 / 24000"
    using scale_powi_div [of "fst x" "snd x" 24000] by (simp add: d1_def double_value_def)
  define d2 where "d2 = double_value (float_div x 24000)"
  have E2: "\<bar>d2 - d1 / 24000\<bar> \<le> d1 / 24000 / 2 ^ 53"
    using nearest_double_error [OF a b] unfolding ratio by (simp add: d2_def float_div_def)
  from E1 have "d1 - real n \<le> real n / 2 ^ 53 \<and> - (d1 - real n) \<le> real n / 2 ^ 53"
    by (rule abs_le_iff [THEN iffD1])
  then have e1: "d1 - real n \<le> real n / 9007199254740992"
    "real n - d1 \<le> real n / 9007199254740992"
    by simp_all
  from E2 have "d2 - d1 / 24000 \<le> d1 / 24000 / 2 ^ 53 \<and>
      - (d2 - d1 / 24000) \<le> d1 / 24000 / 2 ^ 53"
    by (rule abs_le_iff [THEN iffD1])
  then have e2: "d2 - d1 / 24000 \<le> d1 / 24000 / 9007199254740992"
    "d1 / 24000 - d2 \<le> d1 / 24000 / 9007199254740992"
    by simp_all
  have v1: "d2 - real n / 24000 \<le> real n / 24000 / 2251799813685248"
    using e1 e2 npos by linarith
  have v2: "- (d2 - real n / 24000) \<le> real n / 24000 / 2251799813685248"
    using e1 e2 npos by linarith
  have "\<bar>d2 - real n / 24000\<bar> \<le> real n / 24000 / 2251799813685248"
    using v1 v2 by (rule abs_leI)
  then have "\<bar>d2 - real n / 24000\<bar> \<le> real n / 24000 / 2 ^ 51"
    by simp
  then show ?thesis by (simp add: duration_of_def d2_def x_def)
qed

lemma get_pipeline_stdout:
  "\<exists>ts. stdout (snd (get_pipeline E l s)) = stdout s @ map Text ts \<and> (quiet_stdout E \<longrightarrow> ts = [])"
proof (cases "dict_key l")
  case None
  then show ?thesis by (simp add: get_pipeline_unhashable)
next
  case (Some k)
  show ?thesis
  proof (cases "pipelines s k")
    case (Some h)
    with \<open>dict_key l = Some k\<close> show ?thesis by (simp add: get_pipeline_hit)
  next
    case None
    obtain ems r w' where K: "KPipeline E l (world s) = ((ems, r), w')"
      by (metis prod.exhaust)
    have "quiet_stdout E \<longrightarrow> texts_on Stdout ems = []"
      unfolding quiet_stdout_def using K by (metis fst_conv)
    with get_pipeline_miss(5) [OF \<open>dict_key l = Some k\<close> None K] show ?thesis by blast
  qed
qed

lemma get_pipeline_stderr:
  "\<exists>ts. stderr (snd (get_pipeline E l s)) = stderr s @ map Text ts"
proof (cases "dict_key l")
  case None
  then show ?thesis by (simp add: get_pipeline_unhashable)
next
  case (Some k)
  show ?thesis
  proof (cases "pipelines s k")
    case (Some h)
    with \<open>dict_key l = Some k\<close> show ?thesis by (simp add: get_pipeline_hit)
  next
    case None
    obtain ems r w' where K: "KPipeline E l (world s) = ((ems, r), w')"
      by (metis prod.exhaust)
    from get_pipeline_miss(6) [OF \<open>dict_key l = Some k\<close> None K] show ?thesis by blast
  qed
qed

text \<open>What \<^verbatim>\<open>generate_audio\<close> returns and what it adds to the streams.\<close>

lemma generate_audio_effect:
  fixes E :: "('w, 'h, 's) env"
  defines "g \<equiv> \<lambda>t v l p s. generate_audio E t v l p s"
  shows "\<exists>ts1 ts2 us1 us2.
           stdout (snd (g t v l p s)) = stdout s @ map Text ts1 @ map Text ts2 \<and>
           stderr (snd (g t v l p s)) = stderr s @ map Text us1 @ map Text us2 \<and>
           (quiet_stdout E \<longrightarrow> ts1 = [] \<and> ts2 = []) \<and>
           ((\<exists>e. fst (g t v l p s) = failure e) \<or>
            (\<exists>n. fst (g t v l p s) = success_result p n))"
proof -
  obtain r s1 where G: "get_pipeline E l s = (r, s1)" by (metis prod.exhaust)
  obtain ts1 where T1: "stdout s1 = stdout s @ map Text ts1" "quiet_stdout E \<longrightarrow> ts1 = []"
    using get_pipeline_stdout [of E l s] G by auto
  obtain us1 where U1: "stderr s1 = stderr s @ map Text us1"
    using get_pipeline_stderr [of E l s] G by auto
  show ?thesis
  proof (cases r)
    case (Inl e)
    then have "g t v l p s = (failure e, s1)"
      by (simp add: g_def generate_audio_def G)
    with T1 U1 show ?thesis
      by (intro exI [of _ ts1] exI [of _ "[]"] exI [of _ us1]) auto
  next
    case (Inr h)
    obtain ems chunks exn w2 where C: "call_pipeline E h t v (world s1) = ((ems, chunks, exn), w2)"
      by (metis prod.exhaust)
    have Q: "quiet_stdout E \<longrightarrow> texts_on Stdout ems = []"
      unfolding quiet_stdout_def using C by (metis fst_conv)
    have "stdout (snd (g t v l p s)) = stdout s1 @ map Text (texts_on Stdout ems) \<and>
          stderr (snd (g t v l p s)) = stderr s1 @ map Text (texts_on Stderr ems) \<and>
          ((\<exists>e. fst (g t v l p s) = failure e) \<or> (\<exists>n. fst (g t v l p s) = success_result p n))"
      by (auto simp add: g_def generate_audio_def G Inr C Let_def split: option.splits prod.splits)
    with T1 U1 Q show ?thesis
      by (intro exI [of _ ts1] exI [of _ "texts_on Stdout ems"] exI [of _ us1]
          exI [of _ "texts_on Stderr ems"]) auto
  qed
qed

lemma restore_stderr:
  "\<exists>cap. stderr (restore ems s) = stderr s @ cap \<and> list_all is_text cap \<and> length cap \<le> 1"
  by (simp add: restore_def Let_def)

lemma added_refl: "added E s s"
  by (simp add: added_def)

lemma added_trans:
  assumes "added E s s'" and "added E s' s''"
  shows "added E s s''"
proof -
  from assms(1) obtain o1 e1 where 1: "stdout s' = stdout s @ o1" "stderr s' = stderr s @ e1"
    "list_all response_or_text o1" "list_all response_or_text e1" "quiet_stdout E \<longrightarrow> list_all is_json_response o1"
    unfolding added_def by blast
  from assms(2) obtain o2 e2 where 2: "stdout s'' = stdout s' @ o2" "stderr s'' = stderr s' @ e2"
    "list_all response_or_text o2" "list_all response_or_text e2" "quiet_stdout E \<longrightarrow> list_all is_json_response o2"
    unfolding added_def by blast
  have "stdout s'' = stdout s @ (o1 @ o2)" "stderr s'' = stderr s @ (e1 @ e2)"
    "list_all response_or_text (o1 @ o2)" "list_all response_or_text (e1 @ e2)"
    "quiet_stdout E \<longrightarrow> list_all is_json_response (o1 @ o2)"
    using 1 2 by simp_all
  then show ?thesis unfolding added_def by blast
qed

lemma added_print_out: "well_shaped v \<Longrightarrow> added E s (print_out v s)"
  by (simp add: added_def response_or_text_def)

lemma added_print_err: "well_shaped v \<Longrightarrow> added E s (print_err v s)"
  by (simp add: added_def response_or_text_def)

lemma list_all_map_Text: "list_all response_or_text (map Text ts)"
  by (simp add: list_all_iff response_or_text_def)

lemma added_generate_audio:
  "added E s (snd (generate_audio E t v l p s))" "well_shaped (fst (generate_audio E t v l p s))"
proof -
  from generate_audio_effect [of E t v l p s]
  obtain ts1 ts2 us1 us2 where
    S: "stdout (snd (generate_audio E t v l p s)) = stdout s @ map Text ts1 @ map Text ts2"
    and U: "stderr (snd (generate_audio E t v l p s)) = stderr s @ map Text us1 @ map Text us2"
    and Q: "quiet_stdout E \<longrightarrow> ts1 = [] \<and> ts2 = []"
    and R: "(\<exists>e. fst (generate_audio E t v l p s) = failure e) \<or>
            (\<exists>n. fst (generate_audio E t v l p s) = success_result p n)"
    by blast
  from R show "well_shaped (fst (generate_audio E t v l p s))" by auto
  have "list_all response_or_text (map Text ts1 @ map Text ts2)"
    "list_all response_or_text (map Text us1 @ map Text us2)"
    using list_all_map_Text by (simp_all del: map_append add: map_append [symmetric])
  moreover have "quiet_stdout E \<longrightarrow> list_all is_json_response (map Text ts1 @ map Text ts2)"
    using Q by simp
  ultimately show "added E s (snd (generate_audio E t v l p s))"
    unfolding added_def using S U by blast
qed

lemma added_main_body: "added E s (ctl_state (main_body E line s))"
proof (cases E line s rule: main_body_cases)
  case Same
  then show ?thesis by (simp add: added_refl)
next
  case (Fixed v)
  then have "well_shaped v" by auto
  with Fixed(1) show ?thesis by (simp add: added_print_out)
next
  case (Raised e)
  then show ?thesis by (simp add: added_print_err)
next
  case (Generated t v l p)
  from added_trans [OF added_generate_audio(1) added_print_out [OF added_generate_audio(2)]]
  show ?thesis unfolding Generated .
qed

lemma added_server_main: "added E s (server_main E lines s)"
proof (induction lines arbitrary: s)
  case Nil
  show ?case by (simp add: added_refl)
next
  case (Cons line rest)
  show ?case
  proof (cases "main_body E line s")
    case (Next s')
    with added_main_body [of E s line] have "added E s s'" by simp
    from added_trans [OF this Cons.IH [of s']] Next show ?thesis by simp
  next
    case (Stop s')
    with added_main_body [of E s line] show ?thesis by simp
  qed
qed

lemma helper_main_disj:
  "(length argv < 4 \<and> fst (helper_main E argv s) = 1 \<and>
      stdout (snd (helper_main E argv s)) = stdout s \<and>
      stderr (snd (helper_main E argv s)) = stderr s @ [Text usage_msg]) \<or>
   (length argv = 4 \<and> fst (helper_main E argv s) = 1 \<and>
      stdout (snd (helper_main E argv s)) = stdout s \<and>
      stderr (snd (helper_main E argv s)) =
        stderr s @ [Traceback ''IndexError: list index out of range'']) \<or>
   (4 < length argv \<and> fst (helper_main E argv s) = 1 \<and>
      stdout (snd (helper_main E argv s)) = stdout s \<and>
      (\<exists>cap e. stderr (snd (helper_main E argv s)) = stderr s @ cap @ [Json (failure e)] \<and>
         list_all is_text cap \<and> length cap \<le> 1)) \<or>
   (4 < length argv \<and> fst (helper_main E argv s) = 0 \<and>
      (\<exists>n. stdout (snd (helper_main E argv s)) =
        stdout s @ [Json (success_result (PStr (argv ! 4)) n)]) \<and>
      (\<exists>cap. stderr (snd (helper_main E argv s)) = stderr s @ cap \<and>
         list_all is_text cap \<and> length cap \<le> 1))"
proof -
  consider "length argv < 4" | "length argv = 4" | "4 < length argv" by linarith
  then show ?thesis
  proof cases
    case 1
    then show ?thesis by (simp add: helper_main_def)
  next
    case 2
    then show ?thesis by (simp add: helper_main_def)
  next
    case 3
    obtain ems1 r1 w1 where K: "KPipeline E (PStr (argv ! 3)) (world s) = ((ems1, r1), w1)"
      by (metis prod.exhaust)
    show ?thesis
    proof (cases r1)
      case (Inl e)
      from restore_stderr [of ems1 "s\<lparr>world := w1, ctor_log := ctor_log s @ [(PStr (argv ! 3), r1)]\<rparr>"]
      obtain cap where
        "stderr (restore ems1 (s\<lparr>world := w1, ctor_log := ctor_log s @ [(PStr (argv ! 3), r1)]\<rparr>)) =
           stderr s @ cap \<and> list_all is_text cap \<and> length cap \<le> 1"
        by auto
      with 3 K Inl show ?thesis
        by (auto simp add: helper_main_def Let_def)
    next
      case (Inr h)
      obtain ems2 chunks exn w2 where
        C: "call_pipeline E h (PStr (argv ! 1)) (PStr (argv ! 2)) w1 = ((ems2, chunks, exn), w2)"
        by (metis prod.exhaust)
      let ?s2 = "restore (ems1 @ ems2)
        (s\<lparr>ctor_log := ctor_log s @ [(PStr (argv ! 3), r1)], world := w2\<rparr>)"
      from restore_stderr [of "ems1 @ ems2"
          "s\<lparr>ctor_log := ctor_log s @ [(PStr (argv ! 3), r1)], world := w2\<rparr>"]
      obtain cap where
        cap: "stderr ?s2 = stderr s @ cap \<and> list_all is_text cap \<and> length cap \<le> 1"
        by auto
      obtain r w3 where W: "sf_write E (PStr (argv ! 4)) (concat chunks) 24000 w2 = (r, w3)"
        by (metis prod.exhaust)
      from 3 K Inr C cap W show ?thesis
        by (auto simp add: helper_main_def Let_def split: option.splits)
    qed
  qed
qed

lemma responses_of_items:
  "list_all response_or_text xs \<Longrightarrow> list_all well_shaped (concat (map json_of xs))"
proof (induction xs)
  case Nil
  show ?case by simp
next
  case (Cons x xs)
  then show ?case by (cases x) (simp_all add: response_or_text_def)
qed

lemma json_of_texts: "list_all is_text xs \<Longrightarrow> concat (map json_of xs) = []"
proof (induction xs)
  case Nil
  show ?case by simp
next
  case (Cons x xs)
  then show ?case by (cases x) simp_all
qed

lemma server_script_added:
  "\<exists>outs errs. stdout (snd (server_script E installed lines w)) = outs \<and>
     stderr (snd (server_script E installed lines w)) = errs \<and>
     list_all response_or_text outs \<and> list_all response_or_text errs \<and>
     (quiet_stdout E \<longrightarrow> list_all is_json_response outs)"
proof (cases installed)
  case False
  then show ?thesis by (simp add: server_script_def response_or_text_def)
next
  case True
  from added_server_main [of E "init w" lines] True show ?thesis
    by (auto simp add: server_script_def added_def)
qed

lemma helper_script_disj:
  "(\<not> installed \<and> fst (helper_script E installed argv w) = 1 \<and>
      stdout (snd (helper_script E installed argv w)) = [] \<and>
      stderr (snd (helper_script E installed argv w)) = [Text import_error_msg]) \<or>
   (installed \<and> length argv < 4 \<and> fst (helper_script E installed argv w) = 1 \<and>
      stdout (snd (helper_script E installed argv w)) = [] \<and>
      stderr (snd (helper_script E installed argv w)) = [Text usage_msg]) \<or>
   (installed \<and> length argv = 4 \<and> fst (helper_script E installed argv w) = 1 \<and>
      stdout (snd (helper_script E installed argv w)) = [] \<and>
      stderr (snd (helper_script E installed argv w)) =
        [Traceback ''IndexError: list index out of range'']) \<or>
   (installed \<and> 4 < length argv \<and> fst (helper_script E installed argv w) = 1 \<and>
      stdout (snd (helper_script E installed argv w)) = [] \<and>
      (\<exists>cap e. stderr (snd (helper_script E installed argv w)) = cap @ [Json (failure e)] \<and>
         list_all is_text cap \<and> length cap \<le> 1)) \<or>
   (installed \<and> 4 < length argv \<and> fst (helper_script E installed argv w) = 0 \<and>
      (\<exists>n. stdout (snd (helper_script E installed argv w)) =
         [Json (success_result (PStr (argv ! 4)) n)]) \<and>
      (\<exists>cap. stderr (snd (helper_script E installed argv w)) = cap \<and>
         list_all is_text cap \<and> length cap \<le> 1))"
proof (cases installed)
  case False
  then show ?thesis by (simp add: helper_script_def)
next
  case True
  from helper_main_disj [of argv E "init w"] True show ?thesis
    by (simp add: helper_script_def)
qed

section \<open>The command loop\<close>

text \<open>
  Claim C1. Every line that is not a well-formed request would be answered with one error
  response, and the loop would go on. A line that is valid JSON but not an object does
  otherwise: \<^verbatim>\<open>command.get\<close> raises \<^verbatim>\<open>AttributeError\<close>, which only the handler around
  the loop catches. At the input \<^verbatim>\<open>[1]\<close> followed by a ping the server writes nothing to
  standard output, prints the error object to standard error and ends, so the ping is never
  answered; a line that is not JSON at all is answered and the ping after it is too.
\<close>

theorem non_object_request_stops_server:
  "fake_loads (strip ''[1]'') = Some (PList [PInt 1]) \<and>
   stdout (snd (server_script (fake_env Stderr) True [''[1]'', ping_line] 0)) = [] \<and>
   stderr (snd (server_script (fake_env Stderr) True [''[1]'', ping_line] 0)) =
     [Json (failure (no_attribute_msg (PList [PInt 1]) ''get''))] \<and>
   stdout (snd (server_script (fake_env Stderr) True [''not json'', ping_line] 0)) =
     [Json (failure ''Invalid JSON''), Json pong]"
  by (simp add: server_script_def fake_defs run_defs print_out_def print_err_def)

text \<open>
  Claim C7. A request with action \<^verbatim>\<open>generate\<close> in which one of \<^verbatim>\<open>text\<close>,
  \<^verbatim>\<open>voice\<close>, \<^verbatim>\<open>lang_code\<close>, \<^verbatim>\<open>output_path\<close> is absent or the empty string makes
  the loop print exactly the failure "Missing required parameters" and go on with the
  following lines. The state it goes on with differs from the one before in standard output
  only: the world, the dictionary \<^verbatim>\<open>pipelines\<close> and both logs are untouched, so neither
  the synthesis nor the cache has been used.
\<close>

theorem missing_parameters_rejected:
  assumes "strip line \<noteq> []"
    and "loads E (strip line) = Some (PDict kvs)"
    and "dict_get kvs ''action'' = PStr ''generate''"
    and "k \<in> {''text'', ''voice'', ''lang_code'', ''output_path''}"
    and "map_of kvs k = None \<or> map_of kvs k = Some (PStr [])"
  shows "server_main E (line # rest) s =
           server_main E rest (s\<lparr>stdout := stdout s @
             [Json (PDict [(''success'', PBool False),
                           (''error'', PStr ''Missing required parameters'')])]\<rparr>)"
proof -
  from assms(5) have "\<not> truthy (dict_get kvs k)"
    by (auto simp add: dict_get_def)
  with assms(4)
  have "\<not> (truthy (dict_get kvs ''text'') \<and> truthy (dict_get kvs ''voice'') \<and>
      truthy (dict_get kvs ''lang_code'') \<and> truthy (dict_get kvs ''output_path''))"
    by auto
  from main_body_missing [OF assms(1,2,3) this]
  show ?thesis by (simp add: print_out_def failure_def)
qed

theorem missing_parameters_rejected_witness:
  "strip bare_generate_line \<noteq> [] \<and>
   loads (fake_env Stdout) (strip bare_generate_line) = Some (PDict [(''action'', PStr ''generate'')]) \<and>
   server_main (fake_env Stdout) [bare_generate_line, ping_line] (init 0) =
     server_main (fake_env Stdout) [ping_line]
       ((init 0)\<lparr>stdout :=
          [Json (PDict [(''success'', PBool False),
                        (''error'', PStr ''Missing required parameters'')])]\<rparr>)"
proof -
  have 1: "strip bare_generate_line \<noteq> []" by code_simp
  have 2: "loads (fake_env Stdout) (strip bare_generate_line) = Some (PDict [(''action'', PStr ''generate'')])"
    by code_simp
  have 3: "dict_get [(''action'', PStr ''generate'')] ''action'' = PStr ''generate''"
    by (simp add: dict_get_def)
  have 4: "''text'' \<in> {''text'', ''voice'', ''lang_code'', ''output_path''}" by simp
  have 5: "map_of [(''action'', PStr ''generate'')] ''text'' = None \<or>
          map_of [(''action'', PStr ''generate'')] ''text'' = Some (PStr [])" by simp
  from 1 2 missing_parameters_rejected [OF 1 2 3 4 5, of "[ping_line]" "init 0"]
  show ?thesis by simp
qed

text \<open>
  Claim C9. A request with action \<^verbatim>\<open>exit\<close> leaves the loop without printing anything,
  and the run over an input that contains it ends in the state of the run over the lines
  before it: nothing after it is read or answered.
\<close>

theorem exit_ends_loop:
  assumes "strip line \<noteq> []"
    and "loads E (strip line) = Some (PDict kvs)"
    and "dict_get kvs ''action'' = PStr ''exit''"
  shows "main_body E line s = Stop s \<and>
         server_main E (before @ line # after) s = server_main E before s"
proof
  show "main_body E line s = Stop s" using assms by (rule main_body_exit)
  have stop: "\<And>s'. main_body E line s' = Stop s'" using assms main_body_exit by blast
  show "server_main E (before @ line # after) s = server_main E before s"
  proof (induction before arbitrary: s)
    case Nil
    show ?case by (simp add: stop)
  next
    case (Cons l ls)
    show ?case by (cases "main_body E l s") (simp_all add: Cons.IH)
  qed
qed

theorem exit_ends_loop_witness:
  "strip exit_line \<noteq> [] \<and>
   loads (fake_env Stdout) (strip exit_line) = Some (PDict [(''action'', PStr ''exit'')]) \<and>
   main_body (fake_env Stdout) exit_line (init 0) = Stop (init 0) \<and>
   server_main (fake_env Stdout) ([ping_line] @ exit_line # [ping_line, generate_line ''e'']) (init 0) =
     server_main (fake_env Stdout) [ping_line] (init 0) \<and>
   stdout (server_main (fake_env Stdout) [ping_line] (init 0)) = [Json pong]"
proof -
  have 1: "strip exit_line \<noteq> []" by code_simp
  have 2: "loads (fake_env Stdout) (strip exit_line) = Some (PDict [(''action'', PStr ''exit'')])"
    by code_simp
  have 3: "dict_get [(''action'', PStr ''exit'')] ''action'' = PStr ''exit''"
    by (simp add: dict_get_def)
  have 4: "stdout (server_main (fake_env Stdout) [ping_line] (init 0)) = [Json pong]"
    by code_simp
  from 1 2 4 exit_ends_loop [OF 1 2 3, of "init 0" "[ping_line]" "[ping_line, generate_line ''e'']"]
  show ?thesis by simp
qed

section \<open>The pipeline cache\<close>

text \<open>
  Claim C2 as it is worded: the constructor would be invoked at most once per language code.
  A construction that raises is not remembered, so two requests for a code that the model
  rejects invoke it twice.
\<close>

theorem constructor_invoked_twice:
  "\<not> calls_for (KStr ''q'')
       (server_main (fake_env Stderr) [generate_line ''q'', generate_line ''q''] (init 0)) \<le> 1"
  by code_simp

text \<open>
  Claim C2, as amended. Of the constructor invocations for one dictionary key during a run
  of the server, all but the last have raised: the constructor returns a handle at most once
  per key and is never invoked again for a key after it has. A get for an absent key whose
  construction succeeds returns the new handle and stores it; a get for a present key
  returns the stored handle and leaves the whole state, the record of constructor
  invocations included, as it was.
\<close>

theorem pipeline_constructed_once:
  "list_all raised (butlast (entries_for k (server_main E lines (init w)))) \<and>
   (dict_key lang_code = Some k \<and> pipelines s k = None \<and>
    KPipeline E lang_code (world s) = ((ems, Inr h), w') \<longrightarrow>
      fst (get_pipeline E lang_code s) = Inr h \<and>
      pipelines (snd (get_pipeline E lang_code s)) k = Some h \<and>
      ctor_log (snd (get_pipeline E lang_code s)) = ctor_log s @ [(lang_code, Inr h)]) \<and>
   (dict_key lang_code = Some k \<and> pipelines s' k = Some h' \<longrightarrow>
      get_pipeline E lang_code s' = (Inr h', s'))"
proof (intro conjI impI)
  let ?s = "server_main E lines (init w)"
  have inv: "cache_inv ?s" by (rule server_main_cache_inv [OF cache_inv_init])
  show "list_all raised (butlast (entries_for k ?s))"
  proof (cases "pipelines ?s k")
    case None
    with inv have "list_all raised (entries_for k ?s)" unfolding cache_inv_def by blast
    then show ?thesis by (auto simp add: list_all_iff dest: in_set_butlastD)
  next
    case (Some h)
    with inv obtain pre l where "entries_for k ?s = pre @ [(l, Inr h)]" "list_all raised pre"
      unfolding cache_inv_def by blast
    then show ?thesis by simp
  qed
next
  assume A: "dict_key lang_code = Some k \<and> pipelines s k = None \<and>
    KPipeline E lang_code (world s) = ((ems, Inr h), w')"
  then have 1: "dict_key lang_code = Some k" and 2: "pipelines s k = None"
    and 3: "KPipeline E lang_code (world s) = ((ems, Inr h), w')" by blast+
  note M = get_pipeline_miss [OF 1 2 3]
  show "fst (get_pipeline E lang_code s) = Inr h" by (rule M(1))
  show "pipelines (snd (get_pipeline E lang_code s)) k = Some h" using M(4) by simp
  show "ctor_log (snd (get_pipeline E lang_code s)) = ctor_log s @ [(lang_code, Inr h)]" by (rule M(3))
next
  assume "dict_key lang_code = Some k \<and> pipelines s' k = Some h'"
  then show "get_pipeline E lang_code s' = (Inr h', s')" by (simp add: get_pipeline_hit)
qed

theorem pipeline_constructed_once_witness:
  "list_all raised (butlast (entries_for (KStr ''e'')
      (server_main (fake_env Stderr) [generate_line ''e'', generate_line ''e''] (init 0)))) \<and>
   calls_for (KStr ''e'')
      (server_main (fake_env Stderr) [generate_line ''e'', generate_line ''e''] (init 0)) = 1 \<and>
   dict_key (PStr ''e'') = Some (KStr ''e'') \<and>
   pipelines (init 0 :: (nat, nat, nat) state) (KStr ''e'') = None \<and>
   KPipeline (fake_env Stderr) (PStr ''e'') (world (init 0 :: (nat, nat, nat) state)) =
     (([(Stderr, ''loading model'')], Inr 0), 1) \<and>
   fst (get_pipeline (fake_env Stderr) (PStr ''e'') (init 0)) = Inr 0 \<and>
   pipelines (snd (get_pipeline (fake_env Stderr) (PStr ''e'') (init 0))) (KStr ''e'') = Some 0 \<and>
   get_pipeline (fake_env Stderr) (PStr ''e'') (snd (get_pipeline (fake_env Stderr) (PStr ''e'') (init 0)))
     = (Inr 0, snd (get_pipeline (fake_env Stderr) (PStr ''e'') (init 0)))"
proof -
  have 1: "dict_key (PStr ''e'') = Some (KStr ''e'')" by simp
  have 2: "pipelines (init 0 :: (nat, nat, nat) state) (KStr ''e'') = None" by simp
  have 3: "KPipeline (fake_env Stderr) (PStr ''e'') (world (init 0 :: (nat, nat, nat) state)) =
     (([(Stderr, ''loading model'')], Inr 0), 1)"
    by (simp add: fake_env_def fake_KPipeline_def)
  have 4: "pipelines (snd (get_pipeline (fake_env Stderr) (PStr ''e'') (init 0))) (KStr ''e'') = Some 0"
    by (simp add: fake_defs run_defs)
  have 5: "calls_for (KStr ''e'')
      (server_main (fake_env Stderr) [generate_line ''e'', generate_line ''e''] (init 0)) = 1"
    by (simp add: fake_defs run_defs calls_for_def entries_for_def)
  from pipeline_constructed_once [of "KStr ''e''" "fake_env Stderr"
      "[generate_line ''e'', generate_line ''e'']" 0 "PStr ''e''" "init 0"
      "[(Stderr, ''loading model'')]" 0 1
      "snd (get_pipeline (fake_env Stderr) (PStr ''e'') (init 0))" 0] 1 2 3 4 5
  show ?thesis by simp
qed

text \<open>
  Claim C10. When the dictionary has no entry for a language code and the constructor raises,
  the generate request returns the failure carrying the exception's message, the dictionary
  is as it was, the failed invocation is on record, and the next generate request for the
  same code invokes the constructor once more. In every state the server reaches from its
  start, a handle in the dictionary is the one returned by the last constructor invocation
  for its key.
\<close>

theorem failed_construction_not_cached:
  assumes "dict_key lang_code = Some k"
    and "pipelines s k = None"
    and "KPipeline E lang_code (world s) = ((ems, Inl e), w')"
    and "g = generate_audio E text voice lang_code output_path s"
  shows "fst g = failure e \<and>
         pipelines (snd g) = pipelines s \<and>
         ctor_log (snd g) = ctor_log s @ [(lang_code, Inl e)] \<and>
         calls_for k (snd (generate_audio E text' voice' lang_code output_path' (snd g))) =
           Suc (calls_for k (snd g)) \<and>
         (pipelines (server_main E lines (init w)) k' = Some h \<longrightarrow>
            entries_for k' (server_main E lines (init w)) \<noteq> [] \<and>
            snd (last (entries_for k' (server_main E lines (init w)))) = Inr h)"
proof -
  note M = get_pipeline_miss [OF assms(1,2,3)]
  have G: "get_pipeline E lang_code s = (Inl e, snd (get_pipeline E lang_code s))"
    using M(1) by (metis prod.collapse)
  have g: "g = (failure e, snd (get_pipeline E lang_code s))"
    unfolding assms(4) generate_audio_def by (subst G) simp
  have a: "fst g = failure e" by (simp add: g)
  have b: "pipelines (snd g) = pipelines s" using M(4) by (simp add: g)
  have c: "ctor_log (snd g) = ctor_log s @ [(lang_code, Inl e)]" using M(3) by (simp add: g)
  obtain ems2 r2 w2 where K2: "KPipeline E lang_code (world (snd g)) = ((ems2, r2), w2)"
    by (metis prod.exhaust)
  have "pipelines (snd g) k = None" using b assms(2) by simp
  from get_pipeline_miss(3) [OF assms(1) this K2]
  have d: "calls_for k (snd (generate_audio E text' voice' lang_code output_path' (snd g))) =
           Suc (calls_for k (snd g))"
    using assms(1) by (simp add: calls_for_def entries_for_def generate_audio_cache_fields)
  have "cache_inv (server_main E lines (init w))"
    by (rule server_main_cache_inv [OF cache_inv_init])
  then have e: "pipelines (server_main E lines (init w)) k' = Some h \<longrightarrow>
            entries_for k' (server_main E lines (init w)) \<noteq> [] \<and>
            snd (last (entries_for k' (server_main E lines (init w)))) = Inr h"
    unfolding cache_inv_def by fastforce
  from a b c d e show ?thesis by blast
qed

theorem failed_construction_not_cached_witness:
  "dict_key (PStr ''q'') = Some (KStr ''q'') \<and>
   pipelines (init 0 :: (nat, nat, nat) state) (KStr ''q'') = None \<and>
   KPipeline (fake_env Stderr) (PStr ''q'') (world (init 0 :: (nat, nat, nat) state)) =
     (([(Stderr, ''loading model'')], Inl ''unsupported language code''), 1) \<and>
   fst (generate_audio (fake_env Stderr) (PStr ''hola'') (PStr ''ef_dora'') (PStr ''q'')
          (PStr ''out.wav'') (init 0)) = failure ''unsupported language code'' \<and>
   ctor_log (snd (generate_audio (fake_env Stderr) (PStr ''hola'') (PStr ''ef_dora'') (PStr ''q'')
          (PStr ''out.wav'') (init 0))) = [(PStr ''q'', Inl ''unsupported language code'')] \<and>
   pipelines (server_main (fake_env Stderr) [generate_line ''e''] (init 0)) (KStr ''e'') = Some 0 \<and>
   snd (last (entries_for (KStr ''e'') (server_main (fake_env Stderr) [generate_line ''e''] (init 0))))
     = Inr 0"
proof -
  have 1: "dict_key (PStr ''q'') = Some (KStr ''q'')" by simp
  have 2: "pipelines (init 0 :: (nat, nat, nat) state) (KStr ''q'') = None" by simp
  have 3: "KPipeline (fake_env Stderr) (PStr ''q'') (world (init 0 :: (nat, nat, nat) state)) =
     (([(Stderr, ''loading model'')], Inl ''unsupported language code''), 1)"
    by (simp add: fake_env_def fake_KPipeline_def)
  have 4: "pipelines (server_main (fake_env Stderr) [generate_line ''e''] (init 0)) (KStr ''e'') = Some 0"
    by (simp add: fake_defs run_defs)
  from failed_construction_not_cached [OF 1 2 3 refl,
      of "PStr ''hola''" "PStr ''ef_dora''" "PStr ''out.wav''" _ _ _ "[generate_line ''e'']" 0 "KStr ''e''" 0]
    1 2 3 4
  show ?thesis by simp
qed

section \<open>Synthesis\<close>

text \<open>
  Claim C5. When the pipeline is obtained, the generator ends normally after yielding chunks
  of \<open>N > 0\<close> samples in all, and the write succeeds, the response is the success object
  with the requested path, the sample rate 24000 and, as the duration, the double that
  \<^verbatim>\<open>N / 24000.0\<close> evaluates to, which differs from the quotient \<open>N / 24000\<close> by at most
  the relative error \<open>2\<^sup>-\<^sup>5\<^sup>1\<close> of its two roundings. \<^verbatim>\<open>sf.write\<close> has been invoked once,
  with the chunks concatenated in the order of their arrival and the rate 24000, and the
  world the call ends in is the one that this write has produced.
\<close>

theorem generate_reports_duration:
  assumes "fst (get_pipeline E lang_code s) = Inr h"
    and "call_pipeline E h text voice (world (snd (get_pipeline E lang_code s))) =
           ((ems, chunks, None), w2)"
    and "0 < length (concat chunks)"
    and "sf_write E output_path (concat chunks) 24000 w2 = (None, w3)"
    and "g = generate_audio E text voice lang_code output_path s"
  shows "fst g = PDict [(''success'', PBool True),
                        (''output_path'', output_path),
                        (''duration'', PFloat (Finite (duration_of (length (concat chunks))))),
                        (''sample_rate'', PInt 24000)] \<and>
         duration_of (length (concat chunks)) =
           double_value (nearest_double
             (fst (nearest_double (length (concat chunks)) 1) *
                2 ^ nat (snd (nearest_double (length (concat chunks)) 1)))
             (24000 * 2 ^ nat (- snd (nearest_double (length (concat chunks)) 1)))) \<and>
         \<bar>duration_of (length (concat chunks)) - real (length (concat chunks)) / 24000\<bar>
           \<le> real (length (concat chunks)) / 24000 / 2 ^ 51 \<and>
         write_log (snd g) = write_log s @ [(output_path, concat chunks, 24000)] \<and>
         world (snd g) = w3"
proof -
  obtain s1 where G: "get_pipeline E lang_code s = (Inr h, s1)"
    using assms(1) by (metis prod.collapse)
  then have W: "write_log s1 = write_log s"
    using get_pipeline_write_log [of E lang_code s] by simp
  from assms(3) have ne: "chunks \<noteq> []" by auto
  from assms(2) G have C: "call_pipeline E h text voice (world s1) = ((ems, chunks, None), w2)"
    by simp
  have R: "g = (success_result output_path (length (concat chunks)),
             emit ems (s1\<lparr>world := w2\<rparr>)
               \<lparr>world := w3,
                  write_log := write_log (emit ems (s1\<lparr>world := w2\<rparr>)) @
                    [(output_path, concat chunks, 24000)]\<rparr>)"
    unfolding assms(5) generate_audio_def
    by (simp add: G C ne assms(4) Let_def)
  have a: "fst g = PDict [(''success'', PBool True),
                        (''output_path'', output_path),
                        (''duration'', PFloat (Finite (duration_of (length (concat chunks))))),
                        (''sample_rate'', PInt 24000)]"
    by (simp add: R success_result_def)
  have b: "duration_of (length (concat chunks)) =
           double_value (nearest_double
             (fst (nearest_double (length (concat chunks)) 1) *
                2 ^ nat (snd (nearest_double (length (concat chunks)) 1)))
             (24000 * 2 ^ nat (- snd (nearest_double (length (concat chunks)) 1))))"
    by (simp add: duration_of_def float_div_def int_to_float_def)
  have c: "write_log (snd g) = write_log s @ [(output_path, concat chunks, 24000)]"
    by (simp add: R W)
  have d: "world (snd g) = w3" by (simp add: R)
  from a b c d duration_error [of "length (concat chunks)"] show ?thesis by blast
qed

theorem generate_reports_duration_witness:
  "fst (get_pipeline (fake_env Stderr) (PStr ''e'') (init 0)) = Inr 0 \<and>
   call_pipeline (fake_env Stderr) 0 (PStr ''hola'') (PStr ''ef_dora'')
       (world (snd (get_pipeline (fake_env Stderr) (PStr ''e'') (init 0)))) =
     (([(Stderr, ''synthesising'')], [[1, 2], [3]], None), 1) \<and>
   0 < length (concat [[1, 2], [3 :: nat]]) \<and>
   sf_write (fake_env Stderr) (PStr ''out.wav'') (concat [[1, 2], [3]]) 24000 1 = (None, 11) \<and>
   fst (generate_audio (fake_env Stderr) (PStr ''hola'') (PStr ''ef_dora'') (PStr ''e'')
          (PStr ''out.wav'') (init 0)) =
     PDict [(''success'', PBool True), (''output_path'', PStr ''out.wav''),
            (''duration'', PFloat (Finite (1152921504606847 / 2 ^ 63))),
            (''sample_rate'', PInt 24000)] \<and>
   write_log (snd (generate_audio (fake_env Stderr) (PStr ''hola'') (PStr ''ef_dora'') (PStr ''e'')
          (PStr ''out.wav'') (init 0))) = [(PStr ''out.wav'', [1, 2, 3], 24000)] \<and>
   world (snd (generate_audio (fake_env Stderr) (PStr ''hola'') (PStr ''ef_dora'') (PStr ''e'')
          (PStr ''out.wav'') (init 0))) = 11"
proof -
  have 1: "fst (get_pipeline (fake_env Stderr) (PStr ''e'') (init 0)) = Inr 0"
    by (simp add: fake_defs run_defs)
  have 2: "call_pipeline (fake_env Stderr) 0 (PStr ''hola'') (PStr ''ef_dora'')
       (world (snd (get_pipeline (fake_env Stderr) (PStr ''e'') (init 0)))) =
     (([(Stderr, ''synthesising'')], [[1, 2], [3]], None), 1)"
    by (simp add: fake_defs run_defs)
  have 3: "0 < length (concat [[1, 2], [3 :: nat]])" by simp
  have 4: "sf_write (fake_env Stderr) (PStr ''out.wav'') (concat [[1, 2], [3]]) 24000 1 = (None, 11)"
    by (simp add: fake_defs)
  have 5: "duration_of 3 = 1152921504606847 / 2 ^ 63"
    by (simp add: duration_of_def double_value_def float_div_def int_to_float_def
        nearest_double_def round_half_even_def compute_floorlog Let_def)
  have 6: "length (concat [[1, 2], [3 :: nat]]) = 3" by simp
  from generate_reports_duration [OF 1 2 3 4 refl, unfolded 6 5] 1 2 3 4
  show ?thesis by simp
qed



section \<open>Responses and channels\<close>

text \<open>
  Claim C8. Every object printed by the server or by the helper, on either stream, has
  exactly one of the two shapes: it is a success (the answer to a ping, or a generation
  result with path, duration and sample rate) or a failure with an error string, never both,
  and none carries \<^verbatim>\<open>success\<close> true together with an \<^verbatim>\<open>error\<close> field.
\<close>

theorem responses_well_shaped:
  "list_all well_shaped (responses (snd (server_script E installed lines w))) \<and>
   list_all well_shaped (responses (snd (helper_script E installed' argv w')))"
proof
  from server_script_added [of E installed lines w]
  have "list_all response_or_text (stdout (snd (server_script E installed lines w)) @
          stderr (snd (server_script E installed lines w)))"
    by auto
  then show "list_all well_shaped (responses (snd (server_script E installed lines w)))"
    unfolding responses_def by (rule responses_of_items)
  show "list_all well_shaped (responses (snd (helper_script E installed' argv w')))"
    using helper_script_disj [of installed' E argv w']
    by (elim disjE conjE exE) (simp_all add: responses_def json_of_texts)
qed

theorem responses_well_shaped_witness:
  "responses (snd (server_script (fake_env Stdout) True
      [''not json'', ping_line, generate_line ''e'', generate_line ''q'', ''[1]''] 0)) =
     [failure ''Invalid JSON'', pong, success_result (PStr ''out.wav'') 3,
      failure ''unsupported language code'', failure (no_attribute_msg (PList [PInt 1]) ''get'')] \<and>
   list_all well_shaped (responses (snd (server_script (fake_env Stdout) True
      [''not json'', ping_line, generate_line ''e'', generate_line ''q'', ''[1]''] 0))) \<and>
   responses (snd (helper_script (fake_env Stdout) True
      [''kokoro_python_helper.py'', ''hola'', ''ef_dora'', ''e'', ''out.wav''] 0)) =
     [success_result (PStr ''out.wav'') 3] \<and>
   list_all well_shaped (responses (snd (helper_script (fake_env Stdout) True
      [''kokoro_python_helper.py'', ''hola'', ''ef_dora'', ''e'', ''out.wav''] 0)))"
proof -
  have 1: "responses (snd (server_script (fake_env Stdout) True
      [''not json'', ping_line, generate_line ''e'', generate_line ''q'', ''[1]''] 0)) =
     [failure ''Invalid JSON'', pong, success_result (PStr ''out.wav'') 3,
      failure ''unsupported language code'', failure (no_attribute_msg (PList [PInt 1]) ''get'')]"
    by (simp add: server_script_def fake_defs run_defs responses_def texts_on_def numeral_3_eq_3)
  have 2: "responses (snd (helper_script (fake_env Stdout) True
      [''kokoro_python_helper.py'', ''hola'', ''ef_dora'', ''e'', ''out.wav''] 0)) =
     [success_result (PStr ''out.wav'') 3]"
    by (simp add: helper_script_def helper_main_def fake_defs Let_def responses_def texts_on_def
        restore_def numeral_3_eq_3)
  from 1 2 responses_well_shaped [of "fake_env Stdout" True
      "[''not json'', ping_line, generate_line ''e'', generate_line ''q'', ''[1]'']" 0 True
      "[''kokoro_python_helper.py'', ''hola'', ''ef_dora'', ''e'', ''out.wav'']" 0]
  show ?thesis by blast
qed

text \<open>
  Claim C4 as it is worded: every line on the primary channel, in server mode too, would be a
  JSON response. The server leaves the real streams in place while the model runs, so text
  that the model writes to standard output arrives there, before the response.
\<close>

theorem model_text_on_primary_channel:
  "stdout (snd (server_script (fake_env Stdout) True [generate_line ''e''] 0)) =
     [Text ''loading model'', Text ''synthesising'', Json (success_result (PStr ''out.wav'') 3)] \<and>
   \<not> list_all is_json_response
       (stdout (snd (server_script (fake_env Stdout) True [generate_line ''e''] 0)))"
  by (simp add: server_script_def fake_defs run_defs texts_on_def numeral_3_eq_3)

text \<open>
  Claim C4, as amended. In one-shot mode standard output holds JSON responses only, and at
  most one: whatever the model writes while the pipeline is built and the audio generated
  is captured. In server mode every line on standard output is a JSON response or text
  written by the model, and when the model writes nothing to standard output every line is
  a JSON response.
\<close>

theorem primary_channel_discipline:
  "list_all is_json_response (stdout (snd (helper_script E installed argv w))) \<and>
   length (stdout (snd (helper_script E installed argv w))) \<le> 1 \<and>
   list_all response_or_text (stdout (snd (server_script E installed' lines w'))) \<and>
   (quiet_stdout E \<longrightarrow>
      list_all is_json_response (stdout (snd (server_script E installed' lines w'))))"
proof (intro conjI)
  show "list_all is_json_response (stdout (snd (helper_script E installed argv w)))"
    using helper_script_disj [of installed E argv w]
    by (elim disjE conjE exE) simp_all
  show "length (stdout (snd (helper_script E installed argv w))) \<le> 1"
    using helper_script_disj [of installed E argv w]
    by (elim disjE conjE exE) simp_all
  show "list_all response_or_text (stdout (snd (server_script E installed' lines w')))"
    using server_script_added [of E installed' lines w'] by blast
  show "quiet_stdout E \<longrightarrow>
      list_all is_json_response (stdout (snd (server_script E installed' lines w')))"
    using server_script_added [of E installed' lines w'] by blast
qed

theorem primary_channel_discipline_witness:
  "stdout (snd (helper_script (fake_env Stdout) True
      [''kokoro_python_helper.py'', ''hola'', ''ef_dora'', ''e'', ''out.wav''] 0)) =
     [Json (success_result (PStr ''out.wav'') 3)] \<and>
   list_all is_json_response (stdout (snd (helper_script (fake_env Stdout) True
      [''kokoro_python_helper.py'', ''hola'', ''ef_dora'', ''e'', ''out.wav''] 0))) \<and>
   quiet_stdout (fake_env Stderr) \<and>
   stdout (snd (server_script (fake_env Stderr) True [generate_line ''e'', ping_line] 0)) =
     [Json (success_result (PStr ''out.wav'') 3), Json pong] \<and>
   list_all is_json_response
     (stdout (snd (server_script (fake_env Stderr) True [generate_line ''e'', ping_line] 0)))"
proof -
  have 1: "stdout (snd (helper_script (fake_env Stdout) True
      [''kokoro_python_helper.py'', ''hola'', ''ef_dora'', ''e'', ''out.wav''] 0)) =
     [Json (success_result (PStr ''out.wav'') 3)]"
    by (simp add: helper_script_def helper_main_def fake_defs Let_def texts_on_def restore_def
        numeral_3_eq_3)
  have 2: "quiet_stdout (fake_env Stderr)"
    by (simp add: quiet_stdout_def fake_defs texts_on_def)
  have 3: "stdout (snd (server_script (fake_env Stderr) True [generate_line ''e'', ping_line] 0)) =
     [Json (success_result (PStr ''out.wav'') 3), Json pong]"
    by (simp add: server_script_def fake_defs run_defs texts_on_def numeral_3_eq_3)
  from primary_channel_discipline [of "fake_env Stdout" True
      "[''kokoro_python_helper.py'', ''hola'', ''ef_dora'', ''e'', ''out.wav'']" 0]
  have 4: "list_all is_json_response (stdout (snd (helper_script (fake_env Stdout) True
      [''kokoro_python_helper.py'', ''hola'', ''ef_dora'', ''e'', ''out.wav''] 0)))"
    by blast
  from primary_channel_discipline [of "fake_env Stderr" _ _ _ True
      "[generate_line ''e'', ping_line]" 0] 2
  have 5: "list_all is_json_response
     (stdout (snd (server_script (fake_env Stderr) True [generate_line ''e'', ping_line] 0)))"
    by blast
  from 1 2 3 4 5 show ?thesis by blast
qed

section \<open>Failures of the one-shot helper\<close>




end
